theory Spec2Isabelle
  imports Complex_Main
begin

section \<open>JavaScript values\<close>

text \<open>
  The in-page scripts of the repository are embedded as HOL functions over explicit state.
  A JavaScript number is an exact rational here: the rounding of doubles, NaN and the
  infinities are outside the model. A string is a \<^typ>\<open>string\<close>. A value that may be
  absent (\<^verbatim>\<open>undefined\<close> or \<^verbatim>\<open>null\<close>) is an \<^typ>\<open>'a option\<close>. Truthiness is written
  out where the source tests it: a number is truthy when it is not zero, a string when it
  is not empty, an object always.
\<close>

definition truthy_number :: "rat option \<Rightarrow> bool" where
  "truthy_number v = (case v of None \<Rightarrow> False | Some x \<Rightarrow> x \<noteq> 0)"

definition truthy_string :: "string option \<Rightarrow> bool" where
  "truthy_string v = (case v of None \<Rightarrow> False | Some s \<Rightarrow> s \<noteq> [])"

text \<open>The rectangle returned by \<^verbatim>\<open>getBoundingClientRect\<close>.\<close>

record dom_rect =
  rect_left :: rat
  rect_top :: rat
  rect_width :: rat
  rect_height :: rat

definition rect_right :: "dom_rect \<Rightarrow> rat" where
  "rect_right r = rect_left r + rect_width r"

definition rect_bottom :: "dom_rect \<Rightarrow> rat" where
  "rect_bottom r = rect_top r + rect_height r"

text \<open>Decimal digits of a natural number, as a template literal prints an integer.\<close>

definition digit_char :: "nat \<Rightarrow> char" where
  "digit_char d =
     (if d = 0 then CHR ''0'' else if d = 1 then CHR ''1'' else if d = 2 then CHR ''2''
      else if d = 3 then CHR ''3'' else if d = 4 then CHR ''4'' else if d = 5 then CHR ''5''
      else if d = 6 then CHR ''6'' else if d = 7 then CHR ''7'' else if d = 8 then CHR ''8''
      else CHR ''9'')"

fun decimal_nat :: "nat \<Rightarrow> string" where
  "decimal_nat n =
     (if 10 \<le> n then decimal_nat (n div 10) @ [digit_char (n mod 10)] else [digit_char n])"

definition decimal_int :: "int \<Rightarrow> string" where
  "decimal_int i = (if 0 \<le> i then decimal_nat (nat i) else CHR ''-'' # decimal_nat (nat (- i)))"

section \<open>Basic element highlighter\<close>

text \<open>
  The first script of \<^verbatim>\<open>src/unnamed/part_000\<close>: \<^verbatim>\<open>window.elementHighlighter\<close> with
  its \<^verbatim>\<open>highlights\<close> array. The options object of \<^verbatim>\<open>highlight\<close> may leave any key out.
\<close>

record highlight_options =
  opt_color :: "string option"
  opt_borderWidth :: "rat option"
  opt_fillOpacity :: "rat option"
  opt_duration :: "rat option"
  opt_pulseEffect :: "bool option"
  opt_zIndex :: "rat option"
  opt_id :: "string option"

record highlight_config =
  cfg_color :: string
  cfg_borderWidth :: rat
  cfg_fillOpacity :: rat
  cfg_duration :: rat
  cfg_pulseEffect :: bool
  cfg_zIndex :: rat
  cfg_id :: string

text \<open>
  \<^verbatim>\<open>defaults\<close>; the argument is the text \<^verbatim>\<open>Math.random().toString(36).substr(2, 9)\<close>
  produced at this call.
\<close>

definition defaults :: "string \<Rightarrow> highlight_config" where
  "defaults rnd =
     \<lparr>cfg_color = ''rgba(255, 105, 180, 0.5)'', cfg_borderWidth = 3, cfg_fillOpacity = 1 / 5,
      cfg_duration = 1000, cfg_pulseEffect = True, cfg_zIndex = 10000,
      cfg_id = ''highlight-'' @ rnd\<rparr>"

text \<open>\<^verbatim>\<open>{...defaults, ...options}\<close>: a key of the options wins over the default.\<close>

definition merge_config :: "highlight_config \<Rightarrow> highlight_options \<Rightarrow> highlight_config" where
  "merge_config d opts =
     \<lparr>cfg_color = (case opt_color opts of None \<Rightarrow> cfg_color d | Some v \<Rightarrow> v),
      cfg_borderWidth = (case opt_borderWidth opts of None \<Rightarrow> cfg_borderWidth d | Some v \<Rightarrow> v),
      cfg_fillOpacity = (case opt_fillOpacity opts of None \<Rightarrow> cfg_fillOpacity d | Some v \<Rightarrow> v),
      cfg_duration = (case opt_duration opts of None \<Rightarrow> cfg_duration d | Some v \<Rightarrow> v),
      cfg_pulseEffect = (case opt_pulseEffect opts of None \<Rightarrow> cfg_pulseEffect d | Some v \<Rightarrow> v),
      cfg_zIndex = (case opt_zIndex opts of None \<Rightarrow> cfg_zIndex d | Some v \<Rightarrow> v),
      cfg_id = (case opt_id opts of None \<Rightarrow> cfg_id d | Some v \<Rightarrow> v)\<rparr>"

text \<open>
  The overlay \<^verbatim>\<open>div\<close>. Its style strings are kept as the values they are built from:
  the border is width and colour, the background is colour and fill opacity.
\<close>

record overlay_element =
  el_id :: string
  el_rect :: dom_rect
  el_border :: "rat \<times> string"
  el_background :: "string \<times> rat"
  el_zIndex :: rat
  el_animation :: bool

text \<open>
  An entry of the \<^verbatim>\<open>highlights\<close> array. The overlay element is held by reference: a
  handle into the children of \<^verbatim>\<open>document.body\<close>. The timer is \<^verbatim>\<open>null\<close> or the handle
  \<^verbatim>\<open>setTimeout\<close> returned.
\<close>

record highlight_entry =
  entry_id :: string
  entry_element :: nat
  entry_selector :: string
  entry_timer :: "nat option"

text \<open>
  The state the script works on: its array, the overlays attached to the body, whether
  the \<^verbatim>\<open>style#highlight-keyframes\<close> element is in the head, and the timers that are set
  and have neither fired nor been cleared, each with the id its callback will remove.
\<close>

record highlighter =
  highlights :: "highlight_entry list"
  body_children :: "(nat \<times> overlay_element) list"
  head_keyframes :: bool
  pending_timers :: "(nat \<times> string) list"
  next_element :: nat
  next_timer :: nat

text \<open>The state when the script has just been loaded; timer handles are positive.\<close>

definition initial_highlighter :: highlighter where
  "initial_highlighter =
     \<lparr>highlights = [], body_children = [], head_keyframes = False, pending_timers = [],
      next_element = 0, next_timer = 1\<rparr>"

text \<open>
  \<^verbatim>\<open>document.querySelector\<close> is a parameter: for the document as the state has left it
  and a (well-formed) selector, the bounding rectangle of the first match, or nothing.
\<close>

type_synonym document = "highlighter \<Rightarrow> string \<Rightarrow> dom_rect option"

definition keyframes_present :: "highlighter \<Rightarrow> bool" where
  "keyframes_present s =
     (head_keyframes s \<or> ''highlight-keyframes'' \<in> set (map (el_id \<circ> snd) (body_children s)))"

text \<open>\<^verbatim>\<open>this.highlights.find(h => h.id === id)\<close> followed by the store into its timer.\<close>

fun store_timer :: "string \<Rightarrow> nat \<Rightarrow> highlight_entry list \<Rightarrow> highlight_entry list" where
  "store_timer i t [] = []"
| "store_timer i t (h # hs) =
     (if entry_id h = i then h\<lparr>entry_timer := Some t\<rparr> # hs else h # store_timer i t hs)"

definition highlight ::
  "document \<Rightarrow> string \<Rightarrow> string \<Rightarrow> highlight_options \<Rightarrow> highlighter \<Rightarrow> string option \<times> highlighter"
where
  "highlight doc rnd selector options s =
     (case doc s selector of
        None \<Rightarrow> (None, s)
      | Some rect \<Rightarrow>
         (let config = merge_config (defaults rnd) options;
              overlay = \<lparr>el_id = cfg_id config, el_rect = rect,
                         el_border = (cfg_borderWidth config, cfg_color config),
                         el_background = (cfg_color config, cfg_fillOpacity config),
                         el_zIndex = cfg_zIndex config,
                         el_animation = cfg_pulseEffect config\<rparr>;
              s1 = (if cfg_pulseEffect config \<and> \<not> keyframes_present s
                    then s\<lparr>head_keyframes := True\<rparr> else s);
              h = next_element s1;
              s2 = s1\<lparr>body_children := body_children s1 @ [(h, overlay)],
                      next_element := Suc h\<rparr>;
              s3 = s2\<lparr>highlights := highlights s2 @
                        [\<lparr>entry_id = cfg_id config, entry_element = h,
                          entry_selector = selector, entry_timer = None\<rparr>]\<rparr>;
              s4 = (if cfg_duration config > 0
                    then (let t = next_timer s3
                          in s3\<lparr>pending_timers := pending_timers s3 @ [(t, cfg_id config)],
                                next_timer := Suc t,
                                highlights := store_timer (cfg_id config) t (highlights s3)\<rparr>)
                    else s3)
          in (Some (cfg_id config), s4)))"

text \<open>\<^verbatim>\<open>findIndex\<close>: the first position whose entry satisfies the test (\<^verbatim>\<open>-1\<close> is \<open>None\<close>).\<close>

fun findIndex :: "('a \<Rightarrow> bool) \<Rightarrow> 'a list \<Rightarrow> nat option" where
  "findIndex p [] = None"
| "findIndex p (x # xs) =
     (if p x then Some 0 else (case findIndex p xs of None \<Rightarrow> None | Some k \<Rightarrow> Some (Suc k)))"

text \<open>\<^verbatim>\<open>splice(index, 1)\<close>.\<close>

definition splice1 :: "nat \<Rightarrow> 'a list \<Rightarrow> 'a list" where
  "splice1 index xs = take index xs @ drop (Suc index) xs"

definition clearTimeout :: "nat \<Rightarrow> (nat \<times> string) list \<Rightarrow> (nat \<times> string) list" where
  "clearTimeout t ts = filter (\<lambda>p. fst p \<noteq> t) ts"

definition removeChild :: "nat \<Rightarrow> (nat \<times> overlay_element) list \<Rightarrow> (nat \<times> overlay_element) list" where
  "removeChild h cs = filter (\<lambda>p. fst p \<noteq> h) cs"

definition removeHighlight :: "string \<Rightarrow> highlighter \<Rightarrow> bool \<times> highlighter" where
  "removeHighlight i s =
     (case findIndex (\<lambda>h. entry_id h = i) (highlights s) of
        None \<Rightarrow> (False, s)
      | Some index \<Rightarrow>
         (let h = highlights s ! index;
              s1 = (case entry_timer h of
                      None \<Rightarrow> s
                    | Some t \<Rightarrow> if t \<noteq> 0
                               then s\<lparr>pending_timers := clearTimeout t (pending_timers s)\<rparr>
                               else s);
              s2 = s1\<lparr>body_children := removeChild (entry_element h) (body_children s1)\<rparr>;
              s3 = s2\<lparr>highlights := splice1 index (highlights s2)\<rparr>
          in (True, s3)))"

definition removeAllHighlights :: "highlighter \<Rightarrow> nat \<times> highlighter" where
  "removeAllHighlights s =
     (let highlightIds = map entry_id (highlights s)
      in (length highlightIds, fold (\<lambda>i s'. snd (removeHighlight i s')) highlightIds s))"

text \<open>
  The callback of a timer set by \<^verbatim>\<open>highlight\<close>: when the timer is still pending it
  leaves the pending set and \<^verbatim>\<open>removeHighlight\<close> runs on its id.
\<close>

definition timer_fires :: "nat \<Rightarrow> highlighter \<Rightarrow> highlighter" where
  "timer_fires t s =
     (case map_of (pending_timers s) t of
        None \<Rightarrow> s
      | Some i \<Rightarrow> snd (removeHighlight i (s\<lparr>pending_timers := clearTimeout t (pending_timers s)\<rparr>)))"

text \<open>A call made by the page's driver, or a timer running out.\<close>

datatype call =
    Highlight string string highlight_options
  | RemoveHighlight string
  | RemoveAllHighlights
  | TimerFires nat

fun exec :: "document \<Rightarrow> call \<Rightarrow> highlighter \<Rightarrow> highlighter" where
  "exec doc (Highlight rnd selector options) s = snd (highlight doc rnd selector options s)"
| "exec doc (RemoveHighlight i) s = snd (removeHighlight i s)"
| "exec doc RemoveAllHighlights s = snd (removeAllHighlights s)"
| "exec doc (TimerFires t) s = timer_fires t s"

fun run :: "document \<Rightarrow> call list \<Rightarrow> highlighter \<Rightarrow> highlighter" where
  "run doc [] s = s"
| "run doc (c # cs) s = run doc cs (exec doc c s)"

text \<open>The ids of the tracked entries, in order.\<close>

definition tracked_ids :: "highlighter \<Rightarrow> string list" where
  "tracked_ids s = map entry_id (highlights s)"

text \<open>
  A call brings no id that is already tracked: a \<^verbatim>\<open>highlight\<close> that finds its element
  uses an id (the given one, else the generated one) that no tracked entry has.
\<close>

fun brings_fresh_id :: "document \<Rightarrow> call \<Rightarrow> highlighter \<Rightarrow> bool" where
  "brings_fresh_id doc (Highlight rnd selector options) s =
     (doc s selector = None \<or>
      cfg_id (merge_config (defaults rnd) options) \<notin> set (tracked_ids s))"
| "brings_fresh_id doc c s = True"

fun all_fresh :: "document \<Rightarrow> call list \<Rightarrow> highlighter \<Rightarrow> bool" where
  "all_fresh doc [] s = True"
| "all_fresh doc (c # cs) s = (brings_fresh_id doc c s \<and> all_fresh doc cs (exec doc c s))"




text \<open>The empty options object \<^verbatim>\<open>{}\<close>, and one that only gives an id.\<close>

definition no_options :: highlight_options where
  "no_options = \<lparr>opt_color = None, opt_borderWidth = None, opt_fillOpacity = None,
     opt_duration = None, opt_pulseEffect = None, opt_zIndex = None, opt_id = None\<rparr>"

definition with_id :: "string \<Rightarrow> highlight_options" where
  "with_id i = no_options\<lparr>opt_id := Some i\<rparr>"

text \<open>A page for examples: \<^verbatim>\<open>#go\<close> is its one element that selectors find.\<close>

definition unit_rect :: dom_rect where
  "unit_rect = \<lparr>rect_left = 0, rect_top = 0, rect_width = 100, rect_height = 20\<rparr>"

definition static_page :: document where
  "static_page s selector = (if selector = ''#go'' then Some unit_rect else None)"

text \<open>
  A timer handle that \<^verbatim>\<open>removeHighlight\<close> clears when it removes these entries: a
  truthy handle stored on one of them.
\<close>

definition cancelled :: "highlight_entry list \<Rightarrow> nat \<Rightarrow> bool" where
  "cancelled hs t = (t \<noteq> 0 \<and> Some t \<in> set (map entry_timer hs))"




section \<open>Research display panel\<close>

text \<open>
  The second script of \<^verbatim>\<open>src/README.md\<close>: \<^verbatim>\<open>window.researchDisplay\<close>. The data it is
  given: any field may be absent.
\<close>

record metadata_item =
  item_url :: "string option"
  item_thumbnailUrl :: "string option"
  item_likenessScore :: "rat option"

record research_data =
  data_name :: "string option"
  data_description :: "string option"
  data_metadata :: "metadata_item list option"

text \<open>\<^verbatim>\<open>Math.round\<close>: the nearest integer, a half going up.\<close>

definition Math_round :: "rat \<Rightarrow> int" where
  "Math_round x = \<lfloor>x + 1 / 2\<rfloor>"

text \<open>
  A card of the grid: the link target, the image source, and the text of the score
  \<^verbatim>\<open>div\<close> when the card has one.
\<close>

record card =
  card_href :: string
  card_img_src :: string
  card_score :: "string option"

definition make_card :: "metadata_item \<Rightarrow> string \<Rightarrow> card" where
  "make_card item thumbnailUrl =
     \<lparr>card_href = (case item_url item of None \<Rightarrow> ''#'' | Some u \<Rightarrow> if u = [] then ''#'' else u),
      card_img_src = thumbnailUrl,
      card_score =
        (case item_likenessScore item of
           None \<Rightarrow> None
         | Some x \<Rightarrow> if x \<noteq> 0 then Some (''Match: '' @ decimal_int (Math_round x) @ ''%'') else None)\<rparr>"

text \<open>The \<^verbatim>\<open>forEach\<close> over the metadata: the cards appended to the grid, in order.\<close>

fun grid_cards :: "metadata_item list \<Rightarrow> card list" where
  "grid_cards [] = []"
| "grid_cards (item # items) =
     (case item_thumbnailUrl item of
        None \<Rightarrow> grid_cards items
      | Some t \<Rightarrow> if t \<noteq> [] then make_card item t # grid_cards items else grid_cards items)"

text \<open>The children of the panel, in the order they are appended.\<close>

datatype panel_child =
    Header string
  | NameEl string
  | DescEl string
  | MetaTitle string
  | Grid "card list"

text \<open>
  \<^verbatim>\<open>displayResearch\<close>. The state is \<^verbatim>\<open>displayContainer\<close>: the panel attached to the
  body, if any; \<^verbatim>\<open>createDisplayContainer\<close> removes the old panel and attaches an empty one.
\<close>

type_synonym research_display = "panel_child list option"

definition removeResearchDisplay :: "research_display \<Rightarrow> research_display" where
  "removeResearchDisplay s = (case s of None \<Rightarrow> None | Some container \<Rightarrow> None)"

definition createDisplayContainer :: "research_display \<Rightarrow> research_display" where
  "createDisplayContainer s = (case removeResearchDisplay s of None \<Rightarrow> Some [] | Some c \<Rightarrow> Some [])"

definition displayResearch :: "research_data \<Rightarrow> research_display \<Rightarrow> research_display" where
  "displayResearch data s =
     (case createDisplayContainer s of
        None \<Rightarrow> None
      | Some container \<Rightarrow>
          Some (container @ [Header ''Research Results''] @
            (case data_name data of None \<Rightarrow> [] | Some n \<Rightarrow> if n \<noteq> [] then [NameEl n] else []) @
            (case data_description data of
               None \<Rightarrow> [] | Some d \<Rightarrow> if d \<noteq> [] then [DescEl d] else []) @
            (case data_metadata data of
               None \<Rightarrow> []
             | Some items \<Rightarrow>
                 if length items > 0 then [MetaTitle ''Found Images:'', Grid (grid_cards items)]
                 else [])))"

text \<open>The cards of every grid in a panel.\<close>

fun cards_of :: "research_display \<Rightarrow> card list" where
  "cards_of None = []"
| "cards_of (Some children) = concat (map (\<lambda>c. case c of Grid cs \<Rightarrow> cs | _ \<Rightarrow> []) children)"

text \<open>An entry has a thumbnail when its \<^verbatim>\<open>thumbnailUrl\<close> is truthy.\<close>

definition has_thumbnail :: "metadata_item \<Rightarrow> bool" where
  "has_thumbnail item = truthy_string (item_thumbnailUrl item)"

text \<open>The text \<^verbatim>\<open>Match: N%\<close> for a score.\<close>

definition match_text :: "rat \<Rightarrow> string" where
  "match_text x = ''Match: '' @ decimal_int (Math_round x) @ ''%''"

text \<open>Example data: an entry with both urls and a given score, under one subject.\<close>

definition example_item :: "rat option \<Rightarrow> metadata_item" where
  "example_item score =
     \<lparr>item_url = Some ''https://example.org/full.jpg'',
      item_thumbnailUrl = Some ''https://example.org/thumb.jpg'', item_likenessScore = score\<rparr>"

definition example_data :: "metadata_item list \<Rightarrow> research_data" where
  "example_data items =
     \<lparr>data_name = Some ''Ada'', data_description = None, data_metadata = Some items\<rparr>"

section \<open>Photo display overlay\<close>

text \<open>
  \<^verbatim>\<open>src/static/js/photo_display.js\<close>. The arguments of \<^verbatim>\<open>displayPhoto\<close>; each but the
  url may be absent. A landmark is its pair of coordinates.
\<close>

record face_metrics =
  symmetry :: "rat option"
  golden_ratio :: "rat option"
  thirds :: "rat option"
  eye_spacing :: "rat option"

record photo_args =
  url :: string
  landmarks :: "(rat \<times> rat) list option"
  attractivenessScore :: "rat option"
  metrics :: "face_metrics option"
  originalWidth :: "rat option"
  originalHeight :: "rat option"

definition getScoreColor :: "rat \<Rightarrow> string" where
  "getScoreColor score =
     (if score \<ge> 8 then ''#4CAF50'' else if score \<ge> 6 then ''#FFC107'' else ''#F44336'')"

text \<open>
  \<^verbatim>\<open>toFixed(1)\<close>: the sign, then the nearest number of tenths of the absolute value, the
  larger one at a tie.
\<close>

definition toFixed1 :: "rat \<Rightarrow> string" where
  "toFixed1 x =
     (let n = nat \<lfloor>\<bar>x\<bar> * 10 + 1 / 2\<rfloor>
      in (if x < 0 then ''-'' else []) @ decimal_nat (n div 10) @ ''.'' @ [digit_char (n mod 10)])"

text \<open>
  The markup written into the metrics overlay, element by element: the \<^verbatim>\<open>h3\<close> that
  prints \<^verbatim>\<open>Score: x/10\<close> with its colour and the score \<open>x\<close>, the \<^verbatim>\<open>h3\<close> of the notice
  with its colour and text, and a \<^verbatim>\<open>p\<close> with its text.
\<close>

datatype markup = ScoreHeading string rat | NoticeHeading string string | Paragraph string

definition metric_line :: "string \<Rightarrow> rat option \<Rightarrow> markup list" where
  "metric_line label v =
     (case v of None \<Rightarrow> [] | Some x \<Rightarrow> [Paragraph (label @ '': '' @ toFixed1 (x * 100) @ ''%'')])"

definition metricsHtml :: "rat option \<Rightarrow> face_metrics option \<Rightarrow> markup list" where
  "metricsHtml score ms =
     (case ms of
        None \<Rightarrow> [NoticeHeading ''red'' ''Facial analysis unavailable.'']
      | Some m \<Rightarrow>
         (if truthy_number score
          then (case score of
                  None \<Rightarrow> []
                | Some x \<Rightarrow> [ScoreHeading (getScoreColor x) x]) @
               metric_line ''Symmetry'' (symmetry m) @
               metric_line ''Golden Ratio'' (golden_ratio m) @
               metric_line ''Facial Thirds'' (thirds m) @
               metric_line ''Eye Spacing'' (eye_spacing m)
          else [NoticeHeading ''red'' ''Facial analysis unavailable.'']))"

text \<open>
  The canvas: one dot for each scaled landmark and one line through each group of
  landmark indices. \<^verbatim>\<open>connectPoints\<close> reads \<^verbatim>\<open>scaledLandmarks[i][0]\<close>, which raises a
  TypeError when \<open>i\<close> is not an index of the array.
\<close>

datatype js_error = TypeError

record canvas =
  dots :: "(rat \<times> rat) list"
  lines :: "(rat \<times> rat) list list"

definition connectPoints :: "(rat \<times> rat) list \<Rightarrow> nat list \<Rightarrow> js_error + (rat \<times> rat) list" where
  "connectPoints scaledLandmarks indices =
     (if list_all (\<lambda>i. i < length scaledLandmarks) indices
      then Inr (map (\<lambda>i. scaledLandmarks ! i) indices) else Inl TypeError)"

fun connect_groups ::
  "(rat \<times> rat) list \<Rightarrow> nat list list \<Rightarrow> js_error + (rat \<times> rat) list list" where
  "connect_groups scaledLandmarks [] = Inr []"
| "connect_groups scaledLandmarks (g # gs) =
     (case connectPoints scaledLandmarks g of
        Inl e \<Rightarrow> Inl e
      | Inr l \<Rightarrow> (case connect_groups scaledLandmarks gs of Inl e \<Rightarrow> Inl e | Inr ls \<Rightarrow> Inr (l # ls)))"

definition landmark_groups :: "nat list list" where
  "landmark_groups =
     [[0, 1, 2, 3, 4, 5, 6, 7, 8, 9, 10, 11, 12, 13, 14, 15, 16],
      [17, 18, 19, 20, 21],
      [22, 23, 24, 25, 26],
      [27, 28, 29, 30],
      [30, 31, 32, 33, 34, 35, 30],
      [36, 37, 38, 39, 40, 41, 36],
      [42, 43, 44, 45, 46, 47, 42],
      [48, 49, 50, 51, 52, 53, 54, 55, 56, 57, 58, 59, 48],
      [60, 61, 62, 63, 64, 65, 66, 67, 60]]"

datatype wrapper_child = CanvasEl canvas | MetricsOverlay "markup list"

text \<open>
  \<^verbatim>\<open>img.onload\<close>, for an image rendered at the given width and height: what the handler
  appends to the wrapper, or the exception that ends it before anything is appended.
\<close>

definition img_onload :: "rat \<Rightarrow> rat \<Rightarrow> photo_args \<Rightarrow> js_error + wrapper_child list" where
  "img_onload img_width img_height args =
     (case (case landmarks args of
              None \<Rightarrow> Inr []
            | Some ls \<Rightarrow>
               (if length ls > 0 \<and> truthy_number (originalWidth args) \<and>
                   truthy_number (originalHeight args)
                then (case (originalWidth args, originalHeight args) of
                        (Some ow, Some oh) \<Rightarrow>
                          (let scaleX = img_width / ow; scaleY = img_height / oh;
                               scaledLandmarks = map (\<lambda>point. (fst point * scaleX, snd point * scaleY)) ls
                           in (case connect_groups scaledLandmarks landmark_groups of
                                 Inl e \<Rightarrow> Inl e
                               | Inr drawn \<Rightarrow> Inr [CanvasEl \<lparr>dots = scaledLandmarks, lines = drawn\<rparr>]))
                      | _ \<Rightarrow> Inr [])
                else Inr [])) of
        Inl e \<Rightarrow> Inl e
      | Inr appended \<Rightarrow>
          Inr (appended @ [MetricsOverlay (metricsHtml (attractivenessScore args) (metrics args))]))"

text \<open>Example arguments: metrics with a symmetry of 0.873, no landmarks, a given score.\<close>

definition example_metrics :: face_metrics where
  "example_metrics =
     \<lparr>symmetry = Some (873 / 1000), golden_ratio = Some 0, thirds = None, eye_spacing = None\<rparr>"

definition example_photo :: "rat option \<Rightarrow> photo_args" where
  "example_photo score =
     \<lparr>url = ''https://example.org/face.jpg'', landmarks = None, attractivenessScore = score,
      metrics = Some example_metrics, originalWidth = None, originalHeight = None\<rparr>"

section \<open>Advanced element highlighter\<close>

text \<open>
  The second script of \<^verbatim>\<open>src/unnamed/part_000\<close>: the scan for interactive elements.
  \<^verbatim>\<open>toLowerCase\<close> is modelled on the letters A to Z; other characters stay.
\<close>

definition lower_char :: "char \<Rightarrow> char" where
  "lower_char c =
     (case map_of (zip ''ABCDEFGHIJKLMNOPQRSTUVWXYZ'' ''abcdefghijklmnopqrstuvwxyz'') c of
        None \<Rightarrow> c | Some l \<Rightarrow> l)"

definition toLowerCase :: "string \<Rightarrow> string" where
  "toLowerCase s = map lower_char s"

text \<open>\<^verbatim>\<open>s.includes(p)\<close>: \<open>p\<close> occurs in \<open>s\<close>.\<close>

fun str_includes :: "string \<Rightarrow> string \<Rightarrow> bool" where
  "str_includes [] p = (p = [])"
| "str_includes (c # cs) p = (take (length p) (c # cs) = p \<or> str_includes cs p)"

definition HIGHLIGHT_CONTAINER_ID :: string where
  "HIGHLIGHT_CONTAINER_ID = ''playwright-highlight-container''"

definition COLORS :: "string list" where
  "COLORS =
     [''#FF0000'', ''#00FF00'', ''#0000FF'', ''#FFA500'', ''#800080'',
      ''#008080'', ''#FF69B4'', ''#4B0082'', ''#FF4500'', ''#2E8B57'',
      ''#DC143C'', ''#4682B4'']"

text \<open>
  What \<^verbatim>\<open>document.elementFromPoint\<close> at the centre of an element gives, as far as
  \<^verbatim>\<open>isTopElement\<close> looks at it: the call raises; it finds nothing; the element is the
  one found or one of its ancestors below the document element; or it is not.
\<close>

datatype hit_test = HitThrows | HitNothing | HitInside | HitElsewhere

text \<open>What the scan reads of an element node.\<close>

record element =
  tagName :: string
  id_attr :: string
  attributes :: "(string \<times> string) list"
  classList :: "string list"
  has_onclick :: bool
  draggable :: bool
  offsetWidth :: rat
  offsetHeight :: rat
  style_visibility :: string
  style_display :: string
  boundingRect :: dom_rect
  elementFromCentre :: hit_test

text \<open>
  The content of an \<^verbatim>\<open>iframe\<close> as \<^verbatim>\<open>node.contentDocument || node.contentWindow?.document\<close>
  finds it: reading it raises (another origin), there is no document, or there is one,
  with or without a body.
\<close>

datatype 'n frame_content = Inaccessible | NoDocument | Document "'n option"

text \<open>
  A DOM node: a node that is no element (text, comment), or an element with its child
  nodes, the child nodes of its shadow root if it has one, and its frame content (read
  only when the element is an \<^verbatim>\<open>iframe\<close>).
\<close>

datatype node =
    Other
  | Element element "node list" "node list option" "node frame_content"

text \<open>
  Where a node sits, as \<^verbatim>\<open>getXPathTree\<close> sees it by walking \<^verbatim>\<open>parentNode\<close> and
  \<^verbatim>\<open>previousSibling\<close>: the segments of its ancestors up to the boundary, whether its
  parent is a shadow root (or an \<^verbatim>\<open>iframe\<close> element), where the walk upwards stops
  before the node itself, and the node names of the element siblings before it.
\<close>

record position =
  ancestors :: "string list"
  below_shadow_root :: bool
  preceding :: "string list"

fun join :: "string \<Rightarrow> string list \<Rightarrow> string" where
  "join sep [] = []"
| "join sep [x] = x"
| "join sep (x # y # ys) = x @ sep @ join sep (y # ys)"

definition segments :: "position \<Rightarrow> element \<Rightarrow> string list" where
  "segments pos e =
     (if below_shadow_root pos then []
      else (let index = length (filter (\<lambda>name. name = tagName e) (preceding pos));
                xpathIndex = (if index > 0 then ''['' @ decimal_nat (index + 1) @ '']'' else [])
            in ancestors pos @ [toLowerCase (tagName e) @ xpathIndex]))"

definition getXPathTree :: "position \<Rightarrow> element \<Rightarrow> string" where
  "getXPathTree pos e = join ''/'' (segments pos e)"

text \<open>The body of a document parsed as HTML: below \<^verbatim>\<open>html\<close>, after the head.\<close>

definition body_position :: position where
  "body_position = \<lparr>ancestors = [''html''], below_shadow_root = False, preceding = [''HEAD'']\<rparr>"

text \<open>A record of \<^verbatim>\<open>DOM_HASH_MAP\<close>; a property that was never assigned is \<open>None\<close>.\<close>

record node_data =
  nd_tagName :: string
  nd_xpath :: string
  nd_children :: "string list"
  nd_isVisible :: "bool option"
  nd_isTopElement :: "bool option"
  nd_isInteractive :: "bool option"
  nd_highlightIndex :: "nat option"

text \<open>
  An overlay with its label, as \<^verbatim>\<open>highlightElement\<close> appends them to the container. The
  element and the frame stay referenced by the scroll and resize listeners.
\<close>

record overlay_box =
  box_target :: element
  box_frame :: "element option"
  box_label :: nat
  box_color :: string
  box_background :: string
  box_top :: rat
  box_left :: rat
  box_width :: rat
  box_height :: rat
  label_fontSize :: rat
  label_top :: rat
  label_left :: rat

datatype console_entry = ConsoleLog string | ConsoleWarn string | ConsoleError string

text \<open>
  The private state of the script and what it leaves in the page: the two counters, the
  map of records, the two caches (keyed by element), the children of the highlight
  container when the container is in the document, and the console.
\<close>

record scanner =
  highlightIndex :: nat
  ID_current :: nat
  DOM_HASH_MAP :: "string \<rightharpoonup> node_data"
  boundingRects :: "element \<rightharpoonup> dom_rect"
  computedStyles :: "element \<rightharpoonup> string \<times> string"
  container :: "overlay_box list option"
  console :: "console_entry list"

definition initial_scanner :: scanner where
  "initial_scanner =
     \<lparr>highlightIndex = 0, ID_current = 0, DOM_HASH_MAP = Map.empty, boundingRects = Map.empty,
      computedStyles = Map.empty, container = None, console = []\<rparr>"

text \<open>
  What the walk reads of its surroundings: the inner size of the window, and whether
  \<^verbatim>\<open>document.body\<close> is there to append the container to.
\<close>

record window =
  innerWidth :: rat
  innerHeight :: rat
  has_body :: bool

definition clearCache :: "scanner \<Rightarrow> scanner" where
  "clearCache s = s\<lparr>boundingRects := Map.empty, computedStyles := Map.empty\<rparr>"

definition getCachedBoundingRect :: "element \<Rightarrow> scanner \<Rightarrow> dom_rect \<times> scanner" where
  "getCachedBoundingRect e s =
     (case boundingRects s e of
        Some rect \<Rightarrow> (rect, s)
      | None \<Rightarrow> (boundingRect e, s\<lparr>boundingRects := (boundingRects s)(e \<mapsto> boundingRect e)\<rparr>))"

definition getCachedComputedStyle :: "element \<Rightarrow> scanner \<Rightarrow> (string \<times> string) \<times> scanner" where
  "getCachedComputedStyle e s =
     (case computedStyles s e of
        Some style \<Rightarrow> (style, s)
      | None \<Rightarrow>
          ((style_visibility e, style_display e),
           s\<lparr>computedStyles := (computedStyles s)(e \<mapsto> (style_visibility e, style_display e))\<rparr>))"

definition isElementVisible :: "element \<Rightarrow> scanner \<Rightarrow> bool \<times> scanner" where
  "isElementVisible e s =
     (case getCachedComputedStyle e s of
        (style, s') \<Rightarrow>
          (offsetWidth e > 0 \<and> offsetHeight e > 0 \<and> fst style \<noteq> ''hidden'' \<and> snd style \<noteq> ''none'',
           s'))"

definition isTopElement :: "window \<Rightarrow> element \<Rightarrow> scanner \<Rightarrow> bool \<times> scanner" where
  "isTopElement w e s =
     (case getCachedBoundingRect e s of
        (rect, s') \<Rightarrow>
          (let isInViewport =
                 (rect_left rect < innerWidth w \<and> rect_right rect > 0 \<and>
                  rect_top rect < innerHeight w \<and> rect_bottom rect > 0)
           in if \<not> isInViewport then (True, s')
              else (case elementFromCentre e of
                      HitThrows \<Rightarrow> (True, s')
                    | HitNothing \<Rightarrow> (False, s')
                    | HitInside \<Rightarrow> (True, s')
                    | HitElsewhere \<Rightarrow> (False, s'))))"

definition interactiveElements :: "string list" where
  "interactiveElements =
     [''a'', ''button'', ''details'', ''embed'', ''input'', ''menu'', ''menuitem'',
      ''object'', ''select'', ''textarea'', ''canvas'', ''summary'', ''dialog'']"

definition interactiveRoles :: "string list" where
  "interactiveRoles =
     [''button'', ''link'', ''checkbox'', ''radio'', ''tab'', ''menu'', ''menuitem'',
      ''slider'', ''switch'', ''textbox'', ''combobox'', ''listbox'', ''option'',
      ''searchbox'', ''spinbutton'', ''scrollbar'', ''tooltip'', ''treeitem'']"

definition getAttribute :: "element \<Rightarrow> string \<Rightarrow> string option" where
  "getAttribute e name = map_of (attributes e) name"

definition hasAttribute :: "element \<Rightarrow> string \<Rightarrow> bool" where
  "hasAttribute e name = (getAttribute e name \<noteq> None)"

definition isInteractiveElement :: "element \<Rightarrow> bool" where
  "isInteractiveElement e =
     (let tag = toLowerCase (tagName e);
          role = getAttribute e ''role'';
          tabIndex = getAttribute e ''tabindex''
      in if tag \<in> set interactiveElements \<or>
            (case role of None \<Rightarrow> False
             | Some r \<Rightarrow> r \<noteq> [] \<and> toLowerCase r \<in> set interactiveRoles) \<or>
            (case tabIndex of None \<Rightarrow> False | Some t \<Rightarrow> t \<noteq> ''-1'') \<or>
            has_onclick e \<or>
            hasAttribute e ''onclick'' \<or>
            hasAttribute e ''ng-click'' \<or>
            hasAttribute e ''@click'' \<or>
            hasAttribute e ''v-on:click'' \<or>
            hasAttribute e ''aria-expanded'' \<or>
            hasAttribute e ''aria-pressed'' \<or>
            hasAttribute e ''aria-selected'' \<or>
            hasAttribute e ''aria-checked'' \<or>
            getAttribute e ''contenteditable'' = Some ''true'' \<or>
            draggable e \<or>
            getAttribute e ''draggable'' = Some ''true''
         then True
         else list_ex (\<lambda>cls. let lowerCls = toLowerCase cls
                             in str_includes lowerCls ''button'' \<or>
                                str_includes lowerCls ''btn'' \<or>
                                str_includes lowerCls ''clickable'' \<or>
                                str_includes lowerCls ''interactive'' \<or>
                                str_includes lowerCls ''selectable'' \<or>
                                str_includes lowerCls ''dropdown'')
                (classList e))"

definition alwaysAccept :: "string list" where
  "alwaysAccept = [''body'', ''div'', ''main'', ''article'', ''section'', ''nav'', ''header'', ''footer'']"

definition leafElementDenyList :: "string list" where
  "leafElementDenyList = [''svg'', ''script'', ''style'', ''link'', ''meta'', ''noscript'', ''template'']"

definition isElementAccepted :: "element \<Rightarrow> bool" where
  "isElementAccepted e =
     (if tagName e = [] then False
      else (let tag = toLowerCase (tagName e)
            in if tag \<in> set alwaysAccept then True else tag \<notin> set leafElementDenyList))"

text \<open>
  \<^verbatim>\<open>highlightElement\<close>. The overlay and its label, computed from the rectangle of the
  element, the index and the offset of the frame.
\<close>

definition draw_box :: "element \<Rightarrow> nat \<Rightarrow> element option \<Rightarrow> overlay_box" where
  "draw_box e index parentIframe =
     (let rect = boundingRect e;
          baseColor = COLORS ! (index mod length COLORS);
          offset_x = (case parentIframe of None \<Rightarrow> 0 | Some f \<Rightarrow> rect_left (boundingRect f));
          offset_y = (case parentIframe of None \<Rightarrow> 0 | Some f \<Rightarrow> rect_top (boundingRect f));
          top_px = rect_top rect + offset_y;
          left_px = rect_left rect + offset_x;
          labelWidth = 20;
          labelHeight = 16;
          above = (rect_width rect < labelWidth + 4 \<or> rect_height rect < labelHeight + 4)
      in \<lparr>box_target = e, box_frame = parentIframe, box_label = index, box_color = baseColor,
          box_background = baseColor @ ''1A'', box_top = top_px, box_left = left_px,
          box_width = rect_width rect, box_height = rect_height rect,
          label_fontSize = min 12 (max 8 (rect_height rect / 2)),
          label_top = (if above then top_px - labelHeight - 2 else top_px + 2),
          label_left = (if above then left_px + rect_width rect - labelWidth
                        else left_px + rect_width rect - labelWidth - 2)\<rparr>)"

text \<open>
  The \<^verbatim>\<open>try\<close> block first finds the container or creates it and appends it to
  \<^verbatim>\<open>document.body\<close>; without a body that append raises a TypeError, which the \<^verbatim>\<open>catch\<close>
  logs before it returns the index as it came. An element node always has a bounding
  rectangle, so the \<^verbatim>\<open>!rect\<close> exit is never taken.
\<close>

definition highlightElement ::
  "window \<Rightarrow> element \<Rightarrow> nat \<Rightarrow> element option \<Rightarrow> scanner \<Rightarrow> nat \<times> scanner" where
  "highlightElement w e index parentIframe s =
     (case (case container s of
              Some boxes \<Rightarrow> Some boxes
            | None \<Rightarrow> if has_body w then Some [] else None) of
        None \<Rightarrow> (index, s\<lparr>console := console s @ [ConsoleError ''Error highlighting element:'']\<rparr>)
      | Some boxes \<Rightarrow>
          (index + 1, s\<lparr>container := Some (boxes @ [draw_box e index parentIframe])\<rparr>))"

text \<open>
  Lines 582 to 596 of \<^verbatim>\<open>buildDomTree\<close>: the three checks in order, each made only when
  the one before held, and for an element that passes all three the index taken from
  the counter by \<^verbatim>\<open>highlightIndex++\<close>, then the call of \<^verbatim>\<open>highlightElement\<close>, whose result
  is dropped.
\<close>

definition check_element ::
  "window \<Rightarrow> element \<Rightarrow> element option \<Rightarrow> node_data \<Rightarrow> scanner \<Rightarrow> node_data \<times> scanner" where
  "check_element w e parentIframe nodeData s =
     (case isElementVisible e s of
        (isVisible, s1) \<Rightarrow>
          if \<not> isVisible then (nodeData\<lparr>nd_isVisible := Some False\<rparr>, s1)
          else
            (case isTopElement w e s1 of
               (isTop, s2) \<Rightarrow>
                 if \<not> isTop
                 then (nodeData\<lparr>nd_isVisible := Some True, nd_isTopElement := Some False\<rparr>, s2)
                 else if \<not> isInteractiveElement e
                 then (nodeData\<lparr>nd_isVisible := Some True, nd_isTopElement := Some True,
                                nd_isInteractive := Some False\<rparr>, s2)
                 else
                   (let index = highlightIndex s2;
                        s3 = s2\<lparr>highlightIndex := Suc index\<rparr>
                    in (nodeData\<lparr>nd_isVisible := Some True, nd_isTopElement := Some True,
                                  nd_isInteractive := Some True, nd_highlightIndex := Some index\<rparr>,
                        snd (highlightElement w e index parentIframe s3)))))"

text \<open>The node name of a node, for the sibling count of \<^verbatim>\<open>getXPathTree\<close>.\<close>

fun node_names :: "node \<Rightarrow> string list" where
  "node_names Other = []"
| "node_names (Element e childNodes shadowRoot content) = [tagName e]"

fun is_element :: "node \<Rightarrow> bool" where
  "is_element Other = False"
| "is_element (Element e childNodes shadowRoot content) = True"

text \<open>
  \<^verbatim>\<open>buildDomTree\<close>, with the loop over the children beside it. The loop over
  \<^verbatim>\<open>node.childNodes\<close> calls \<^verbatim>\<open>buildDomTree\<close> on element nodes only, the loop over the
  child nodes of a shadow root on every node. The position of the node stands for the
  parent and sibling links \<^verbatim>\<open>getXPathTree\<close> follows.
\<close>

fun buildDomTree ::
  "window \<Rightarrow> node \<Rightarrow> element option \<Rightarrow> position \<Rightarrow> scanner \<Rightarrow> string option \<times> scanner"
and buildChildren ::
  "window \<Rightarrow> bool \<Rightarrow> node list \<Rightarrow> element option \<Rightarrow> string list \<Rightarrow> bool \<Rightarrow> string list \<Rightarrow>
     scanner \<Rightarrow> scanner"
where
  "buildDomTree w Other parentIframe pos s = (None, s)"
| "buildDomTree w (Element e childNodes shadowRoot content) parentIframe pos s =
     (if id_attr e = HIGHLIGHT_CONTAINER_ID then (None, s)
      else if \<not> isElementAccepted e then (None, s)
      else
        (case check_element w e parentIframe
                \<lparr>nd_tagName = toLowerCase (tagName e), nd_xpath = getXPathTree pos e,
                 nd_children = [], nd_isVisible = None, nd_isTopElement = None,
                 nd_isInteractive = None, nd_highlightIndex = None\<rparr> s of
           (nodeData, s1) \<Rightarrow>
             (let s2 =
                    (if toLowerCase (tagName e) = ''iframe''
                     then (case content of
                             Inaccessible \<Rightarrow>
                               s1\<lparr>console := console s1 @ [ConsoleWarn ''Unable to access iframe:'']\<rparr>
                           | NoDocument \<Rightarrow> s1
                           | Document None \<Rightarrow> s1
                           | Document (Some body) \<Rightarrow>
                               snd (buildDomTree w body (Some e) body_position s1))
                     else (case shadowRoot of
                             Some nodes \<Rightarrow>
                               buildChildren w False nodes parentIframe (segments pos e) True [] s1
                           | None \<Rightarrow>
                               buildChildren w True childNodes parentIframe (segments pos e) False [] s1));
                  id = decimal_nat (ID_current s2)
              in (Some id,
                  s2\<lparr>ID_current := Suc (ID_current s2),
                     DOM_HASH_MAP := (DOM_HASH_MAP s2)(id \<mapsto> nodeData)\<rparr>))))"
| "buildChildren w elements_only [] parentIframe anc shadow prev s = s"
| "buildChildren w elements_only (child # rest) parentIframe anc shadow prev s =
     buildChildren w elements_only rest parentIframe anc shadow (prev @ node_names child)
       (if elements_only \<and> \<not> is_element child then s
        else snd (buildDomTree w child parentIframe
                    \<lparr>ancestors = anc, below_shadow_root = shadow, preceding = prev\<rparr> s))"

text \<open>\<^verbatim>\<open>removeAllHighlights\<close> of this script: the container leaves the document.\<close>

definition removeAllHighlights_scan :: "scanner \<Rightarrow> scanner" where
  "removeAllHighlights_scan s = (case container s of None \<Rightarrow> s | Some boxes \<Rightarrow> s\<lparr>container := None\<rparr>)"

record scan_options =
  opt_doHighlightElements :: "bool option"
  opt_focusHighlightIndex :: "int option"
  opt_viewportExpansion :: "rat option"
  opt_parentSelector :: "string option"

record scan_config =
  doHighlightElements :: bool
  focusHighlightIndex :: int
  viewportExpansion :: rat
  parentSelector :: "string option"

definition scan_defaults :: scan_config where
  "scan_defaults =
     \<lparr>doHighlightElements = True, focusHighlightIndex = - 1, viewportExpansion = 0,
      parentSelector = None\<rparr>"

definition merge_scan_config :: "scan_config \<Rightarrow> scan_options \<Rightarrow> scan_config" where
  "merge_scan_config d opts =
     \<lparr>doHighlightElements =
        (case opt_doHighlightElements opts of None \<Rightarrow> doHighlightElements d | Some v \<Rightarrow> v),
      focusHighlightIndex =
        (case opt_focusHighlightIndex opts of None \<Rightarrow> focusHighlightIndex d | Some v \<Rightarrow> v),
      viewportExpansion =
        (case opt_viewportExpansion opts of None \<Rightarrow> viewportExpansion d | Some v \<Rightarrow> v),
      parentSelector =
        (case opt_parentSelector opts of None \<Rightarrow> parentSelector d | Some v \<Rightarrow> Some v)\<rparr>"

text \<open>
  The page a scan runs on: the window size, the body of the document if it has one, and
  \<^verbatim>\<open>document.querySelector\<close> for well-formed selectors, which gives the node found
  together with its position. The page is static: what the scan reads of an element
  does not change while it runs.
\<close>

record page =
  page_innerWidth :: rat
  page_innerHeight :: rat
  document_body :: "node option"
  querySelector :: "string \<Rightarrow> (node \<times> position) option"

definition window_of :: "page \<Rightarrow> window" where
  "window_of pg =
     \<lparr>innerWidth = page_innerWidth pg, innerHeight = page_innerHeight pg,
      has_body = (document_body pg \<noteq> None)\<rparr>"

definition body_start :: "page \<Rightarrow> (node \<times> position) option" where
  "body_start pg = (case document_body pg of None \<Rightarrow> None | Some b \<Rightarrow> Some (b, body_position))"

text \<open>The node the scan starts from, and what choosing it writes to the console.\<close>

definition start_node :: "page \<Rightarrow> scan_config \<Rightarrow> (node \<times> position) option \<times> console_entry list" where
  "start_node pg config =
     (case parentSelector config of
        None \<Rightarrow> (body_start pg, [])
      | Some sel \<Rightarrow>
          if sel = [] then (body_start pg, [])
          else (case querySelector pg sel of
                  Some found \<Rightarrow>
                    (Some found, [ConsoleLog (''Starting highlight from parent selector: '' @ sel)])
                | None \<Rightarrow>
                    (body_start pg,
                     [ConsoleWarn (''Parent selector not found: '' @ sel @ '', using document.body'')])))"

definition findAndHighlightInteractiveElements ::
  "page \<Rightarrow> scan_options \<Rightarrow> scanner \<Rightarrow> nat \<times> scanner" where
  "findAndHighlightInteractiveElements pg options s =
     (let config = merge_scan_config scan_defaults options;
          s1 = removeAllHighlights_scan (clearCache (s\<lparr>highlightIndex := 0, ID_current := 0\<rparr>));
          s2 = s1\<lparr>console := console s1 @ snd (start_node pg config)\<rparr>;
          s3 = (case fst (start_node pg config) of
                  None \<Rightarrow> s2
                | Some (startNode, pos) \<Rightarrow> snd (buildDomTree (window_of pg) startNode None pos s2))
      in (highlightIndex s3, s3))"

section \<open>The scan as a function of the page\<close>

text \<open>
  The three checks as the page decides them, without the caches: what the cached
  lookups return when every cached value is the element's own.
\<close>

definition visible :: "element \<Rightarrow> bool" where
  "visible e =
     (offsetWidth e > 0 \<and> offsetHeight e > 0 \<and> style_visibility e \<noteq> ''hidden'' \<and>
      style_display e \<noteq> ''none'')"

definition topmost :: "window \<Rightarrow> element \<Rightarrow> bool" where
  "topmost w e =
     (if rect_left (boundingRect e) < innerWidth w \<and> rect_right (boundingRect e) > 0 \<and>
         rect_top (boundingRect e) < innerHeight w \<and> rect_bottom (boundingRect e) > 0
      then (case elementFromCentre e of
              HitThrows \<Rightarrow> True | HitNothing \<Rightarrow> False | HitInside \<Rightarrow> True | HitElsewhere \<Rightarrow> False)
      else True)"

text \<open>An element is classified interactive by the scan when it passes all three checks.\<close>

definition classified_interactive :: "window \<Rightarrow> element \<Rightarrow> bool" where
  "classified_interactive w e = (visible e \<and> topmost w e \<and> isInteractiveElement e)"

text \<open>
  The accepted elements the walk evaluates, in pre-order (an element before everything
  below it, siblings in document order), each with the frame it is in.
\<close>

fun visited :: "node \<Rightarrow> element option \<Rightarrow> (element \<times> element option) list"
and visited_children :: "node list \<Rightarrow> element option \<Rightarrow> (element \<times> element option) list"
where
  "visited Other parentIframe = []"
| "visited (Element e childNodes shadowRoot content) parentIframe =
     (if id_attr e = HIGHLIGHT_CONTAINER_ID \<or> \<not> isElementAccepted e then []
      else (e, parentIframe) #
        (if toLowerCase (tagName e) = ''iframe''
         then (case content of
                 Inaccessible \<Rightarrow> []
               | NoDocument \<Rightarrow> []
               | Document None \<Rightarrow> []
               | Document (Some body) \<Rightarrow> visited body (Some e))
         else (case shadowRoot of
                 Some nodes \<Rightarrow> visited_children nodes parentIframe
               | None \<Rightarrow> visited_children childNodes parentIframe)))"
| "visited_children [] parentIframe = []"
| "visited_children (child # rest) parentIframe =
     visited child parentIframe @ visited_children rest parentIframe"

definition interactive_in :: "window \<Rightarrow> node \<Rightarrow> element option \<Rightarrow> (element \<times> element option) list" where
  "interactive_in w n parentIframe =
     filter (\<lambda>x. classified_interactive w (fst x)) (visited n parentIframe)"

definition interactive_among ::
  "window \<Rightarrow> node list \<Rightarrow> element option \<Rightarrow> (element \<times> element option) list" where
  "interactive_among w ns parentIframe =
     filter (\<lambda>x. classified_interactive w (fst x)) (visited_children ns parentIframe)"

text \<open>
  What one call of \<^verbatim>\<open>highlightElement\<close> does to the container: the overlay is appended,
  to a container created if need be; without a body to hold the container nothing is
  drawn.
\<close>

definition place ::
  "window \<Rightarrow> overlay_box list option \<Rightarrow> (element \<times> element option) \<times> nat \<Rightarrow> overlay_box list option"
where
  "place w c x =
     (case c of
        Some boxes \<Rightarrow> Some (boxes @ [draw_box (fst (fst x)) (snd x) (snd (fst x))])
      | None \<Rightarrow>
          if has_body w then Some [draw_box (fst (fst x)) (snd x) (snd (fst x))] else None)"

text \<open>Drawing the given elements in order, labelled from \<open>h\<close> upwards.\<close>

definition draw_from ::
  "window \<Rightarrow> nat \<Rightarrow> (element \<times> element option) list \<Rightarrow> overlay_box list option \<Rightarrow> overlay_box list option"
where
  "draw_from w h xs c = foldl (place w) c (zip xs [h..<h + length xs])"

text \<open>The record of an element at a position, when the counter stands at \<open>h\<close>.\<close>

definition record_of :: "window \<Rightarrow> element \<Rightarrow> position \<Rightarrow> nat \<Rightarrow> node_data" where
  "record_of w e pos h =
     \<lparr>nd_tagName = toLowerCase (tagName e), nd_xpath = getXPathTree pos e, nd_children = [],
      nd_isVisible = Some (visible e),
      nd_isTopElement = (if visible e then Some (topmost w e) else None),
      nd_isInteractive =
        (if visible e \<and> topmost w e then Some (isInteractiveElement e) else None),
      nd_highlightIndex = (if classified_interactive w e then Some h else None)\<rparr>"

text \<open>
  The records a walk writes, in the order it writes them (an element after everything
  below it), when the counter stands at \<open>h\<close> as the walk begins.
\<close>

fun records :: "window \<Rightarrow> node \<Rightarrow> element option \<Rightarrow> position \<Rightarrow> nat \<Rightarrow> node_data list"
and records_children ::
  "window \<Rightarrow> node list \<Rightarrow> element option \<Rightarrow> string list \<Rightarrow> bool \<Rightarrow> string list \<Rightarrow> nat \<Rightarrow>
     node_data list"
where
  "records w Other parentIframe pos h = []"
| "records w (Element e childNodes shadowRoot content) parentIframe pos h =
     (if id_attr e = HIGHLIGHT_CONTAINER_ID \<or> \<not> isElementAccepted e then []
      else
        (if toLowerCase (tagName e) = ''iframe''
         then (case content of
                 Inaccessible \<Rightarrow> []
               | NoDocument \<Rightarrow> []
               | Document None \<Rightarrow> []
               | Document (Some body) \<Rightarrow>
                   records w body (Some e) body_position
                     (if classified_interactive w e then Suc h else h))
         else (case shadowRoot of
                 Some nodes \<Rightarrow>
                   records_children w nodes parentIframe (segments pos e) True []
                     (if classified_interactive w e then Suc h else h)
               | None \<Rightarrow>
                   records_children w childNodes parentIframe (segments pos e) False []
                     (if classified_interactive w e then Suc h else h))) @
        [record_of w e pos h])"
| "records_children w [] parentIframe anc shadow prev h = []"
| "records_children w (child # rest) parentIframe anc shadow prev h =
     records w child parentIframe
       \<lparr>ancestors = anc, below_shadow_root = shadow, preceding = prev\<rparr> h @
     records_children w rest parentIframe anc shadow (prev @ node_names child)
       (h + length (interactive_in w child parentIframe))"

text \<open>Writing records under consecutive ids, from id \<open>i\<close> upwards.\<close>

fun store :: "nat \<Rightarrow> node_data list \<Rightarrow> (string \<rightharpoonup> node_data) \<Rightarrow> (string \<rightharpoonup> node_data)" where
  "store i [] m = m"
| "store i (r # rs) m = store (Suc i) rs (m(decimal_nat i \<mapsto> r))"

text \<open>Every cached value is the element's own.\<close>

definition coherent :: "scanner \<Rightarrow> bool" where
  "coherent s =
     ((\<forall>e r. boundingRects s e = Some r \<longrightarrow> r = boundingRect e) \<and>
      (\<forall>e st. computedStyles s e = Some st \<longrightarrow> st = (style_visibility e, style_display e)))"

text \<open>
  What a stretch of the walk does, when it evaluates the interactive elements \<open>xs\<close> and
  writes the records \<open>rs\<close>.
\<close>

definition effect ::
  "window \<Rightarrow> (element \<times> element option) list \<Rightarrow> node_data list \<Rightarrow> scanner \<Rightarrow> scanner \<Rightarrow> bool" where
  "effect w xs rs s s' =
     (coherent s' \<and>
      highlightIndex s' = highlightIndex s + length xs \<and>
      container s' = draw_from w (highlightIndex s) xs (container s) \<and>
      ID_current s' = ID_current s + length rs \<and>
      DOM_HASH_MAP s' = store (ID_current s) rs (DOM_HASH_MAP s))"

text \<open>The interactive elements of a scan in pre-order, and the records it writes.\<close>

definition scan_interactive :: "page \<Rightarrow> scan_options \<Rightarrow> (element \<times> element option) list" where
  "scan_interactive pg options =
     (case fst (start_node pg (merge_scan_config scan_defaults options)) of
        None \<Rightarrow> []
      | Some (startNode, pos) \<Rightarrow> interactive_in (window_of pg) startNode None)"

definition scan_records :: "page \<Rightarrow> scan_options \<Rightarrow> node_data list" where
  "scan_records pg options =
     (case fst (start_node pg (merge_scan_config scan_defaults options)) of
        None \<Rightarrow> []
      | Some (startNode, pos) \<Rightarrow> records (window_of pg) startNode None pos 0)"

text \<open>The overlays in the container, none when there is no container.\<close>

definition overlays :: "scanner \<Rightarrow> overlay_box list" where
  "overlays s = (case container s of None \<Rightarrow> [] | Some boxes \<Rightarrow> boxes)"

text \<open>
  An example page: the body holds a text node, a \<^verbatim>\<open>div\<close> with a button in it, and a
  link; every element is visible and topmost. The same \<^verbatim>\<open>div\<close> in a document that has
  lost its body.
\<close>

definition plain :: "string \<Rightarrow> element" where
  "plain tag =
     \<lparr>tagName = tag, id_attr = [], attributes = [], classList = [], has_onclick = False,
      draggable = False, offsetWidth = 100, offsetHeight = 20, style_visibility = ''visible'',
      style_display = ''block'', boundingRect = unit_rect, elementFromCentre = HitInside\<rparr>"

definition leaf :: "string \<Rightarrow> node" where
  "leaf tag = Element (plain tag) [Other] None NoDocument"

definition example_div :: node where
  "example_div = Element (plain ''DIV'') [leaf ''BUTTON''] None NoDocument"

definition example_body :: node where
  "example_body = Element (plain ''BODY'') [Other, example_div, leaf ''A''] None NoDocument"

definition no_scan_options :: scan_options where
  "no_scan_options =
     \<lparr>opt_doHighlightElements = None, opt_focusHighlightIndex = None,
      opt_viewportExpansion = None, opt_parentSelector = None\<rparr>"

definition from_selector :: "string \<Rightarrow> scan_options" where
  "from_selector sel = no_scan_options\<lparr>opt_parentSelector := Some sel\<rparr>"

definition example_page :: page where
  "example_page =
     \<lparr>page_innerWidth = 1024, page_innerHeight = 768, document_body = Some example_body,
      querySelector = (\<lambda>sel. if sel = ''div''
         then Some (example_div,
                \<lparr>ancestors = [''html'', ''body''], below_shadow_root = False, preceding = []\<rparr>)
         else None)\<rparr>"

definition bodiless_page :: page where
  "bodiless_page =
     \<lparr>page_innerWidth = 1024, page_innerHeight = 768, document_body = None,
      querySelector = (\<lambda>sel. if sel = ''div''
         then Some (example_div,
                \<lparr>ancestors = [''html''], below_shadow_root = False, preceding = [''HEAD'']\<rparr>)
         else None)\<rparr>"

text \<open>Options that set each of the three unread keys away from its default.\<close>

definition all_switched :: scan_options where
  "all_switched =
     \<lparr>opt_doHighlightElements = Some False, opt_focusHighlightIndex = Some 3,
      opt_viewportExpansion = Some 100, opt_parentSelector = None\<rparr>"

section \<open>Properties of the basic highlighter\<close>

lemma store_timer_ids: "map entry_id (store_timer i t hs) = map entry_id hs"
  by (induction hs) auto

lemma tracked_ids_highlight:
  "tracked_ids (snd (highlight doc rnd selector options s)) =
     (case doc s selector of None \<Rightarrow> tracked_ids s
      | Some r \<Rightarrow> tracked_ids s @ [cfg_id (merge_config (defaults rnd) options)])"
  by (simp add: highlight_def tracked_ids_def Let_def store_timer_ids split: option.splits)

lemma findIndex_Some: "findIndex p xs = Some k \<Longrightarrow> k < length xs \<and> p (xs ! k) \<and> \<not> list_ex p (take k xs)"
  by (induction xs arbitrary: k) (auto split: if_splits option.splits)

lemma findIndex_None: "findIndex p xs = None \<Longrightarrow> \<not> list_ex p xs"
  by (induction xs) (auto split: if_splits option.splits)

lemma highlights_removeHighlight:
  "highlights (snd (removeHighlight i s)) =
     (case findIndex (\<lambda>h. entry_id h = i) (highlights s) of None \<Rightarrow> highlights s
      | Some k \<Rightarrow> splice1 k (highlights s))"
  by (simp add: removeHighlight_def Let_def split: option.splits)

lemma distinct_take_drop_Suc: "distinct ys \<Longrightarrow> distinct (take k ys @ drop (Suc k) ys)"
proof (cases "k < length ys")
  case True
  assume d: "distinct ys"
  have "ys = take k ys @ (ys ! k) # drop (Suc k) ys"
    using True by (rule id_take_nth_drop)
  then have "distinct (take k ys @ (ys ! k) # drop (Suc k) ys)"
    using d by simp
  then show ?thesis by auto
next
  case False
  assume "distinct ys"
  then show ?thesis using False by simp
qed

lemma distinct_splice1: "distinct (map f xs) \<Longrightarrow> distinct (map f (splice1 k xs))"
  using distinct_take_drop_Suc [of "map f xs" k]
  by (simp add: splice1_def take_map drop_map)

lemma distinct_removeHighlight:
  "distinct (tracked_ids s) \<Longrightarrow> distinct (tracked_ids (snd (removeHighlight i s)))"
  by (simp add: tracked_ids_def highlights_removeHighlight distinct_splice1 split: option.splits)

lemma removeHighlight_head:
  assumes "highlights s = h # hs"
  shows "snd (removeHighlight (entry_id h) s) =
     s\<lparr>pending_timers :=
          (case entry_timer h of None \<Rightarrow> pending_timers s
           | Some t \<Rightarrow> if t \<noteq> 0 then clearTimeout t (pending_timers s) else pending_timers s),
        body_children := removeChild (entry_element h) (body_children s),
        highlights := hs\<rparr>"
  using assms by (simp add: removeHighlight_def Let_def splice1_def split: option.splits)

lemma fold_removeHighlight:
  "highlights s = hs \<Longrightarrow>
     fold (\<lambda>i s'. snd (removeHighlight i s')) (map entry_id hs) s =
       s\<lparr>pending_timers := filter (\<lambda>p. \<not> cancelled hs (fst p)) (pending_timers s),
         body_children := filter (\<lambda>p. fst p \<notin> set (map entry_element hs)) (body_children s),
         highlights := []\<rparr>"
proof (induction hs arbitrary: s)
  case Nil
  then show ?case by (simp add: cancelled_def)
next
  case (Cons h hs)
  let ?s1 = "snd (removeHighlight (entry_id h) s)"
  have s1: "?s1 = s\<lparr>pending_timers :=
          (case entry_timer h of None \<Rightarrow> pending_timers s
           | Some t \<Rightarrow> if t \<noteq> 0 then clearTimeout t (pending_timers s) else pending_timers s),
        body_children := removeChild (entry_element h) (body_children s),
        highlights := hs\<rparr>"
    using Cons.prems by (rule removeHighlight_head)
  then have "highlights ?s1 = hs" by simp
  have p: "filter (\<lambda>p. \<not> cancelled hs (fst p)) (pending_timers ?s1) =
           filter (\<lambda>p. \<not> cancelled (h # hs) (fst p)) (pending_timers s)"
    by (cases "entry_timer h")
       (auto simp: s1 cancelled_def clearTimeout_def intro!: filter_cong)
  have b: "filter (\<lambda>p. fst p \<notin> set (map entry_element hs)) (body_children ?s1) =
           filter (\<lambda>p. fst p \<notin> set (map entry_element (h # hs))) (body_children s)"
    by (auto simp: s1 removeChild_def intro!: filter_cong)
  have "fold (\<lambda>i s'. snd (removeHighlight i s')) (map entry_id (h # hs)) s =
        fold (\<lambda>i s'. snd (removeHighlight i s')) (map entry_id hs) ?s1"
    by simp
  also have "\<dots> = ?s1\<lparr>pending_timers := filter (\<lambda>p. \<not> cancelled hs (fst p)) (pending_timers ?s1),
         body_children := filter (\<lambda>p. fst p \<notin> set (map entry_element hs)) (body_children ?s1),
         highlights := []\<rparr>"
    using Cons.IH [OF \<open>highlights ?s1 = hs\<close>] .
  also have "\<dots> = s\<lparr>pending_timers := filter (\<lambda>p. \<not> cancelled (h # hs) (fst p)) (pending_timers s),
         body_children := filter (\<lambda>p. fst p \<notin> set (map entry_element (h # hs))) (body_children s),
         highlights := []\<rparr>"
    unfolding p b by (simp add: s1)
  finally show ?case .
qed

lemma removeAllHighlights_eq:
  "removeAllHighlights s =
     (length (highlights s),
      s\<lparr>pending_timers := filter (\<lambda>p. \<not> cancelled (highlights s) (fst p)) (pending_timers s),
        body_children :=
          filter (\<lambda>p. fst p \<notin> set (map entry_element (highlights s))) (body_children s),
        highlights := []\<rparr>)"
  by (simp add: removeAllHighlights_def Let_def fold_removeHighlight)

lemma distinct_timer_fires:
  "distinct (tracked_ids s) \<Longrightarrow> distinct (tracked_ids (timer_fires t s))"
proof (cases "map_of (pending_timers s) t")
  case None
  assume "distinct (tracked_ids s)"
  then show ?thesis using None by (simp add: timer_fires_def)
next
  case (Some i)
  assume "distinct (tracked_ids s)"
  then have "distinct (tracked_ids (s\<lparr>pending_timers := clearTimeout t (pending_timers s)\<rparr>))"
    by (simp add: tracked_ids_def)
  then show ?thesis
    using Some by (simp add: timer_fires_def distinct_removeHighlight)
qed

lemma distinct_exec:
  "distinct (tracked_ids s) \<Longrightarrow> brings_fresh_id doc c s \<Longrightarrow> distinct (tracked_ids (exec doc c s))"
proof (cases c)
  case (Highlight rnd selector options)
  assume "distinct (tracked_ids s)" "brings_fresh_id doc c s"
  then show ?thesis
    using Highlight by (auto simp: tracked_ids_highlight split: option.splits)
next
  case (RemoveHighlight i)
  assume "distinct (tracked_ids s)"
  then show ?thesis using RemoveHighlight by (simp add: distinct_removeHighlight)
next
  case RemoveAllHighlights
  then show ?thesis by (simp add: removeAllHighlights_eq tracked_ids_def)
next
  case (TimerFires t)
  assume "distinct (tracked_ids s)"
  then show ?thesis using TimerFires by (simp add: distinct_timer_fires)
qed

text \<open>
  Claim C6, as amended. \<^verbatim>\<open>highlight\<close> never looks at the ids that are tracked, so the ids
  stay pairwise different exactly as long as the callers keep them so: from a state whose
  tracked ids are pairwise different, any sequence of \<^verbatim>\<open>highlight\<close>, \<^verbatim>\<open>removeHighlight\<close>
  and \<^verbatim>\<open>removeAllHighlights\<close> calls and of timers running out, in which every
  \<^verbatim>\<open>highlight\<close> that finds its element brings an id no tracked entry has, ends in a
  state whose tracked ids are pairwise different.
\<close>

theorem ids_unique_while_fresh:
  "distinct (tracked_ids s) \<Longrightarrow> all_fresh doc cs s \<Longrightarrow> distinct (tracked_ids (run doc cs s))"
proof (induction cs arbitrary: s)
  case Nil
  then show ?case by simp
next
  case (Cons c cs)
  from Cons.prems have "distinct (tracked_ids (exec doc c s))"
    by (simp add: distinct_exec)
  moreover from Cons.prems have "all_fresh doc cs (exec doc c s)"
    by simp
  ultimately show ?case
    using Cons.IH by simp
qed

text \<open>
  Claim C6 as stated fails: two \<^verbatim>\<open>highlight\<close> calls that both give the id \<^verbatim>\<open>x\<close> in
  their options leave two tracked entries with the id \<^verbatim>\<open>x\<close>.
\<close>

theorem explicit_id_twice_counterexample:
  "\<not> distinct (tracked_ids (run static_page
      [Highlight ''k3j9x'' ''#go'' (with_id ''x''), Highlight ''p0q2m'' ''#go'' (with_id ''x'')]
      initial_highlighter))"
  by (simp add: tracked_ids_highlight static_page_def with_id_def no_options_def merge_config_def)

theorem ids_unique_while_fresh_witness:
  "distinct (tracked_ids initial_highlighter) \<and>
   all_fresh static_page
      [Highlight ''k3j9x'' ''#go'' no_options, Highlight ''p0q2m'' ''#go'' (with_id ''x''),
       RemoveHighlight ''x'', Highlight ''zz'' ''#none'' (with_id ''highlight-k3j9x'')]
      initial_highlighter \<and>
   distinct (tracked_ids (run static_page
      [Highlight ''k3j9x'' ''#go'' no_options, Highlight ''p0q2m'' ''#go'' (with_id ''x''),
       RemoveHighlight ''x'', Highlight ''zz'' ''#none'' (with_id ''highlight-k3j9x'')]
      initial_highlighter))"
proof -
  have d: "distinct (tracked_ids initial_highlighter)"
    by (simp add: tracked_ids_def initial_highlighter_def)
  have f: "all_fresh static_page
      [Highlight ''k3j9x'' ''#go'' no_options, Highlight ''p0q2m'' ''#go'' (with_id ''x''),
       RemoveHighlight ''x'', Highlight ''zz'' ''#none'' (with_id ''highlight-k3j9x'')]
      initial_highlighter"
    by (simp add: highlight_def removeHighlight_def splice1_def Let_def static_page_def
        with_id_def no_options_def merge_config_def defaults_def tracked_ids_def
        initial_highlighter_def keyframes_present_def unit_rect_def)
  from ids_unique_while_fresh [OF d f] d f show ?thesis by blast
qed

text \<open>
  Claim C8. When the selector matches no element, \<^verbatim>\<open>highlight\<close> returns \<^verbatim>\<open>null\<close> and
  leaves the whole state as it was: no overlay element is attached to the document, no
  entry is added to the tracked collection, no timer is set.
\<close>

theorem highlight_no_match:
  "doc s selector = None \<Longrightarrow> highlight doc rnd selector options s = (None, s)"
  by (simp add: highlight_def)

theorem highlight_no_match_witness:
  "static_page initial_highlighter ''#absent'' = None \<and>
   highlight static_page ''k3j9x'' ''#absent'' no_options initial_highlighter =
     (None, initial_highlighter)"
proof -
  have n: "static_page initial_highlighter ''#absent'' = None"
    by (simp add: static_page_def)
  from highlight_no_match [of static_page initial_highlighter "''#absent''", OF n] n
  show ?thesis by simp
qed














declare decimal_nat.simps [simp del]

section \<open>Properties of the research display panel\<close>

lemma floor_rat_numerals: "\<lfloor>(numeral a :: rat) / numeral b\<rfloor> = numeral a div numeral b"
  by (metis floor_divide_of_int_eq of_int_numeral)

lemma grid_cards_filter:
  "grid_cards items =
     map (\<lambda>item. make_card item (case item_thumbnailUrl item of None \<Rightarrow> [] | Some t \<Rightarrow> t))
       (filter has_thumbnail items)"
  by (induction items) (auto simp: has_thumbnail_def truthy_string_def split: option.splits)

text \<open>
  Claim C5, as amended. The grid gets one card for each metadata entry whose
  \<^verbatim>\<open>thumbnailUrl\<close> is present and not empty, in order, and no other card. The card of an
  entry whose likeness score is present and not zero shows \<^verbatim>\<open>Match: N%\<close>, \<open>N\<close> the score
  rounded to the nearest integer; the card of an entry whose score is absent or zero
  shows no score text.
\<close>

theorem displayResearch_cards:
  assumes "data_metadata data = Some items"
  shows "map card_score (cards_of (displayResearch data s)) =
           map (\<lambda>item. case item_likenessScore item of
                          None \<Rightarrow> None
                        | Some x \<Rightarrow> if x = 0 then None else Some (match_text x))
             (filter has_thumbnail items)"
  using assms
  by (cases s; cases "data_name data"; cases "data_description data")
     (auto simp: displayResearch_def createDisplayContainer_def removeResearchDisplay_def
        grid_cards_filter make_card_def match_text_def split: option.splits)

theorem displayResearch_cards_witness:
  "data_metadata (example_data
      [example_item (Some (876 / 10)), (example_item (Some 50))\<lparr>item_thumbnailUrl := None\<rparr>,
       example_item None]) =
     Some [example_item (Some (876 / 10)), (example_item (Some 50))\<lparr>item_thumbnailUrl := None\<rparr>,
       example_item None] \<and>
   map card_score (cards_of (displayResearch (example_data
      [example_item (Some (876 / 10)), (example_item (Some 50))\<lparr>item_thumbnailUrl := None\<rparr>,
       example_item None]) None)) =
     [Some ''Match: 88%'', None]"
proof -
  have m: "data_metadata (example_data
      [example_item (Some (876 / 10)), (example_item (Some 50))\<lparr>item_thumbnailUrl := None\<rparr>,
       example_item None]) =
     Some [example_item (Some (876 / 10)), (example_item (Some 50))\<lparr>item_thumbnailUrl := None\<rparr>,
       example_item None]"
    by (simp add: example_data_def)
  from displayResearch_cards [OF m, of None] m show ?thesis
    by (simp add: example_item_def has_thumbnail_def truthy_string_def match_text_def
        Math_round_def floor_rat_numerals decimal_int_def decimal_nat.simps digit_char_def)
qed

text \<open>
  Claim C5 as stated fails at a likeness score of \<open>0\<close>, a value of the range 0 to 100: the
  entry has a thumbnail and gets its card, and the card shows no \<^verbatim>\<open>Match: 0%\<close>.
\<close>

theorem zero_score_no_match_text_counterexample:
  "cards_of (displayResearch (example_data [example_item (Some 0)]) None) =
     [\<lparr>card_href = ''https://example.org/full.jpg'',
       card_img_src = ''https://example.org/thumb.jpg'', card_score = None\<rparr>]"
  by (simp add: displayResearch_def createDisplayContainer_def removeResearchDisplay_def
      example_data_def example_item_def make_card_def)

section \<open>Properties of the photo display overlay\<close>

lemmas photo_eval =
  img_onload_def metricsHtml_def metric_line_def toFixed1_def getScoreColor_def
  truthy_number_def example_photo_def example_metrics_def floor_rat_numerals
  decimal_nat.simps digit_char_def

text \<open>
  The panel for a score of \<open>7\<close> and a symmetry of \<open>0.873\<close>: the heading in amber, the
  symmetry as \<^verbatim>\<open>87.3%\<close>; a metric of \<open>0\<close> is present and printed.
\<close>

lemma metrics_panel_example:
  "img_onload 640 480 (example_photo (Some 7)) =
     Inr [MetricsOverlay [ScoreHeading ''#FFC107'' 7, Paragraph ''Symmetry: 87.3%'',
                          Paragraph ''Golden Ratio: 0.0%'']]"
  by (simp add: photo_eval)

text \<open>
  Claim C4 does not hold of the code at a score of \<open>0\<close>, a value of the documented range
  0 to 10: the score and the metrics object are both supplied, and the overlay shows the
  notice that facial analysis is unavailable where the claim has the score in \<^verbatim>\<open>#F44336\<close>
  and the metrics.
\<close>

theorem zero_score_shows_unavailable:
  "img_onload 640 480 (example_photo (Some 0)) =
     Inr [MetricsOverlay
            [NoticeHeading ''red'' ''Facial analysis unavailable.'']]"
  by (simp add: photo_eval)

section \<open>Properties of the advanced highlighter\<close>

lemma store_append: "store i (rs @ qs) m = store (i + length rs) qs (store i rs m)"
  by (induction rs arbitrary: i m) auto

lemma draw_from_append:
  "draw_from w h (xs @ ys) c = draw_from w (h + length xs) ys (draw_from w h xs c)"
proof -
  have "[h..<h + length (xs @ ys)] = [h..<h + length xs] @ [h + length xs..<h + length xs + length ys]"
    using upt_add_eq_append [of h "h + length xs" "length ys"] by (simp add: add.assoc)
  then show ?thesis
    by (simp add: draw_from_def)
qed

lemma effect_refl: "coherent s \<Longrightarrow> effect w [] [] s s"
  by (simp add: effect_def draw_from_def)

lemma effect_trans:
  assumes "effect w xs rs s s'" and "effect w ys qs s' s''"
  shows "effect w (xs @ ys) (rs @ qs) s s''"
  using assms unfolding effect_def
  by (simp add: store_append draw_from_append)

lemma coherent_style_update:
  "coherent s \<Longrightarrow>
     coherent (s\<lparr>computedStyles := (computedStyles s)(e \<mapsto> (style_visibility e, style_display e))\<rparr>)"
  by (simp add: coherent_def)

lemma coherent_rect_update:
  "coherent s \<Longrightarrow> coherent (s\<lparr>boundingRects := (boundingRects s)(e \<mapsto> boundingRect e)\<rparr>)"
  by (simp add: coherent_def)

lemma style_cached:
  assumes "coherent s"
  shows "fst (getCachedComputedStyle e s) = (style_visibility e, style_display e)"
    and "coherent (snd (getCachedComputedStyle e s))"
proof -
  show "fst (getCachedComputedStyle e s) = (style_visibility e, style_display e)"
  proof (cases "computedStyles s e")
    case None
    then show ?thesis by (simp add: getCachedComputedStyle_def)
  next
    case (Some st)
    with assms have "st = (style_visibility e, style_display e)"
      unfolding coherent_def by blast
    with Some show ?thesis by (simp add: getCachedComputedStyle_def)
  qed
  show "coherent (snd (getCachedComputedStyle e s))"
    using assms coherent_style_update [OF assms, of e]
    by (cases "computedStyles s e") (simp_all add: getCachedComputedStyle_def)
qed

lemma rect_cached:
  assumes "coherent s"
  shows "fst (getCachedBoundingRect e s) = boundingRect e"
    and "coherent (snd (getCachedBoundingRect e s))"
proof -
  show "fst (getCachedBoundingRect e s) = boundingRect e"
  proof (cases "boundingRects s e")
    case None
    then show ?thesis by (simp add: getCachedBoundingRect_def)
  next
    case (Some r)
    with assms have "r = boundingRect e"
      unfolding coherent_def by blast
    with Some show ?thesis by (simp add: getCachedBoundingRect_def)
  qed
  show "coherent (snd (getCachedBoundingRect e s))"
    using assms coherent_rect_update [OF assms, of e]
    by (cases "boundingRects s e") (simp_all add: getCachedBoundingRect_def)
qed

lemma style_cached_frame:
  "highlightIndex (snd (getCachedComputedStyle e s)) = highlightIndex s"
  "container (snd (getCachedComputedStyle e s)) = container s"
  "ID_current (snd (getCachedComputedStyle e s)) = ID_current s"
  "DOM_HASH_MAP (snd (getCachedComputedStyle e s)) = DOM_HASH_MAP s"
  by (simp_all add: getCachedComputedStyle_def split: option.splits)

lemma rect_cached_frame:
  "highlightIndex (snd (getCachedBoundingRect e s)) = highlightIndex s"
  "container (snd (getCachedBoundingRect e s)) = container s"
  "ID_current (snd (getCachedBoundingRect e s)) = ID_current s"
  "DOM_HASH_MAP (snd (getCachedBoundingRect e s)) = DOM_HASH_MAP s"
  by (simp_all add: getCachedBoundingRect_def split: option.splits)

lemma isElementVisible_eq:
  "coherent s \<Longrightarrow> isElementVisible e s = (visible e, snd (getCachedComputedStyle e s))"
  using style_cached(1) [of s e]
  by (simp add: isElementVisible_def visible_def case_prod_unfold)

lemma isTopElement_eq:
  "coherent s \<Longrightarrow> isTopElement w e s = (topmost w e, snd (getCachedBoundingRect e s))"
  using rect_cached(1) [of s e]
  by (simp add: isTopElement_def topmost_def case_prod_unfold Let_def split: hit_test.splits)

lemma effect_unchanged:
  assumes "coherent s'" "highlightIndex s' = highlightIndex s" "container s' = container s"
    "ID_current s' = ID_current s" "DOM_HASH_MAP s' = DOM_HASH_MAP s"
  shows "effect w [] [] s s'"
  using assms by (simp add: effect_def draw_from_def)

lemma highlightElement_container:
  "container (snd (highlightElement w e i f s)) = place w (container s) ((e, f), i)"
  by (simp add: highlightElement_def place_def split: option.splits)

lemma highlightElement_frame:
  "highlightIndex (snd (highlightElement w e i f s)) = highlightIndex s"
  "ID_current (snd (highlightElement w e i f s)) = ID_current s"
  "DOM_HASH_MAP (snd (highlightElement w e i f s)) = DOM_HASH_MAP s"
  "boundingRects (snd (highlightElement w e i f s)) = boundingRects s"
  "computedStyles (snd (highlightElement w e i f s)) = computedStyles s"
  by (simp_all add: highlightElement_def split: option.splits)

lemma check_element_effect:
  assumes c: "coherent s"
  shows "effect w (if classified_interactive w e then [(e, f)] else []) [] s
           (snd (check_element w e f nd s))"
proof -
  let ?s1 = "snd (getCachedComputedStyle e s)"
  let ?s2 = "snd (getCachedBoundingRect e ?s1)"
  have c1: "coherent ?s1" using c by (rule style_cached(2))
  have c2: "coherent ?s2" using c1 by (rule rect_cached(2))
  have e1: "effect w [] [] s ?s1"
    using c1 by (intro effect_unchanged) (simp_all add: style_cached_frame)
  have e2: "effect w [] [] s ?s2"
    using c2 by (intro effect_unchanged) (simp_all add: style_cached_frame rect_cached_frame)
  show ?thesis
  proof (cases "visible e")
    case False
    then show ?thesis
      using e1 by (simp add: check_element_def isElementVisible_eq [OF c] classified_interactive_def)
  next
    case v: True
    show ?thesis
    proof (cases "topmost w e \<and> isInteractiveElement e")
      case False
      then show ?thesis
        using e2 v
        by (auto simp: check_element_def isElementVisible_eq [OF c] isTopElement_eq [OF c1]
            classified_interactive_def)
    next
      case True
      let ?s3 = "?s2\<lparr>highlightIndex := Suc (highlightIndex ?s2)\<rparr>"
      let ?s4 = "snd (highlightElement w e (highlightIndex ?s2) f ?s3)"
      have s': "snd (check_element w e f nd s) = ?s4"
        using v True
        by (simp add: check_element_def isElementVisible_eq [OF c] isTopElement_eq [OF c1] Let_def)
      have "coherent ?s4"
        using c2 by (simp add: coherent_def highlightElement_frame)
      moreover have "highlightIndex ?s4 = highlightIndex s + 1"
        by (simp add: highlightElement_frame style_cached_frame rect_cached_frame)
      moreover have "container ?s4 = draw_from w (highlightIndex s) [(e, f)] (container s)"
        by (simp add: highlightElement_container draw_from_def style_cached_frame rect_cached_frame)
      moreover have "ID_current ?s4 = ID_current s" "DOM_HASH_MAP ?s4 = DOM_HASH_MAP s"
        by (simp_all add: highlightElement_frame style_cached_frame rect_cached_frame)
      ultimately show ?thesis
        using v True unfolding s' by (simp add: effect_def classified_interactive_def)
    qed
  qed
qed

lemma check_element_record:
  assumes c: "coherent s"
  shows "fst (check_element w e f
            \<lparr>nd_tagName = toLowerCase (tagName e), nd_xpath = getXPathTree pos e,
             nd_children = [], nd_isVisible = None, nd_isTopElement = None,
             nd_isInteractive = None, nd_highlightIndex = None\<rparr> s) =
         record_of w e pos (highlightIndex s)"
proof -
  have c1: "coherent (snd (getCachedComputedStyle e s))" using c by (rule style_cached(2))
  show ?thesis
    by (simp add: check_element_def isElementVisible_eq [OF c] isTopElement_eq [OF c1] Let_def
        record_of_def classified_interactive_def style_cached_frame rect_cached_frame)
qed

lemma effect_write:
  assumes "coherent s"
  shows "effect w [] [nd] s
           (s\<lparr>ID_current := Suc (ID_current s),
              DOM_HASH_MAP := (DOM_HASH_MAP s)(decimal_nat (ID_current s) \<mapsto> nd)\<rparr>)"
  using assms by (simp add: effect_def draw_from_def coherent_def)

lemma effect_warn:
  assumes "coherent s"
  shows "effect w [] [] s (s\<lparr>console := console s @ es\<rparr>)"
  using assms by (simp add: effect_def draw_from_def coherent_def)

lemma effect_index: "effect w xs rs s s' \<Longrightarrow> highlightIndex s' = highlightIndex s + length xs"
  by (simp add: effect_def)

lemma effect_coherent: "effect w xs rs s s' \<Longrightarrow> coherent s'"
  by (simp add: effect_def)

lemma walk_effect:
  "coherent s \<Longrightarrow>
     effect w (interactive_in w n f) (records w n f pos (highlightIndex s)) s
       (snd (buildDomTree w n f pos s))"
  "coherent s \<Longrightarrow>
     effect w (interactive_among w ns f)
       (records_children w ns f anc sh prev (highlightIndex s)) s
       (buildChildren w eo ns f anc sh prev s)"
proof (induction w n f pos s and w eo ns f anc sh prev s rule: buildDomTree_buildChildren.induct)
  case (1 w parentIframe pos s)
  then show ?case
    by (simp add: interactive_in_def effect_refl)
next
  case (2 w e childNodes shadowRoot content parentIframe pos s)
  let ?init = "\<lparr>nd_tagName = toLowerCase (tagName e), nd_xpath = getXPathTree pos e,
               nd_children = [], nd_isVisible = None, nd_isTopElement = None,
               nd_isInteractive = None, nd_highlightIndex = None\<rparr>"
  let ?h = "highlightIndex s"
  show ?case
  proof (cases "id_attr e = HIGHLIGHT_CONTAINER_ID \<or> \<not> isElementAccepted e")
    case True
    then show ?thesis
      using "2.prems" by (auto simp: interactive_in_def effect_refl)
  next
    case False
    then have acc: "id_attr e \<noteq> HIGHLIGHT_CONTAINER_ID" "\<not> \<not> isElementAccepted e"
      by simp_all
    let ?own = "if classified_interactive w e then [(e, parentIframe)] else []"
    let ?rec = "fst (check_element w e parentIframe ?init s)"
    let ?s1 = "snd (check_element w e parentIframe ?init s)"
    let ?h' = "if classified_interactive w e then Suc ?h else ?h"
    have pair: "(?rec, ?s1) = check_element w e parentIframe ?init s"
      by simp
    have own: "effect w ?own [] s ?s1"
      using "2.prems" by (rule check_element_effect)
    have c1: "coherent ?s1"
      using own by (rule effect_coherent)
    have h1: "highlightIndex ?s1 = ?h'"
      using effect_index [OF own] by simp
    have nd: "?rec = record_of w e pos ?h"
      using "2.prems" by (rule check_element_record)
    let ?kids = "if toLowerCase (tagName e) = ''iframe''
                 then (case content of
                         Inaccessible \<Rightarrow> []
                       | NoDocument \<Rightarrow> []
                       | Document None \<Rightarrow> []
                       | Document (Some body) \<Rightarrow> interactive_in w body (Some e))
                 else (case shadowRoot of
                         Some nodes \<Rightarrow> interactive_among w nodes parentIframe
                       | None \<Rightarrow> interactive_among w childNodes parentIframe)"
    let ?krecs = "if toLowerCase (tagName e) = ''iframe''
                  then (case content of
                          Inaccessible \<Rightarrow> []
                        | NoDocument \<Rightarrow> []
                        | Document None \<Rightarrow> []
                        | Document (Some body) \<Rightarrow> records w body (Some e) body_position ?h')
                  else (case shadowRoot of
                          Some nodes \<Rightarrow>
                            records_children w nodes parentIframe (segments pos e) True [] ?h'
                        | None \<Rightarrow>
                            records_children w childNodes parentIframe (segments pos e) False [] ?h')"
    let ?s2 = "if toLowerCase (tagName e) = ''iframe''
               then (case content of
                       Inaccessible \<Rightarrow>
                         ?s1\<lparr>console := console ?s1 @ [ConsoleWarn ''Unable to access iframe:'']\<rparr>
                     | NoDocument \<Rightarrow> ?s1
                     | Document None \<Rightarrow> ?s1
                     | Document (Some body) \<Rightarrow>
                         snd (buildDomTree w body (Some e) body_position ?s1))
               else (case shadowRoot of
                       Some nodes \<Rightarrow>
                         buildChildren w False nodes parentIframe (segments pos e) True [] ?s1
                     | None \<Rightarrow>
                         buildChildren w True childNodes parentIframe (segments pos e) False [] ?s1)"
    have kids: "effect w ?kids ?krecs ?s1 ?s2"
    proof (cases "toLowerCase (tagName e) = ''iframe''")
      case iframe: True
      show ?thesis
      proof (cases content)
        case Inaccessible
        then show ?thesis using iframe c1 by (simp add: effect_warn)
      next
        case NoDocument
        then show ?thesis using iframe c1 by (simp add: effect_refl)
      next
        case (Document b)
        show ?thesis
        proof (cases b)
          case None
          then show ?thesis using iframe Document c1 by (simp add: effect_refl)
        next
          case (Some body)
          from "2.IH"(1) [OF acc pair iframe Document Some c1]
          show ?thesis using iframe Document Some h1 by simp
        qed
      qed
    next
      case regular: False
      show ?thesis
      proof (cases shadowRoot)
        case None
        from "2.IH"(2) [OF acc pair regular None c1]
        show ?thesis using regular None h1 by simp
      next
        case (Some nodes)
        from "2.IH"(3) [OF acc pair regular Some c1]
        show ?thesis using regular Some h1 by simp
      qed
    qed
    have c2: "coherent ?s2"
      using kids by (rule effect_coherent)
    let ?s3 = "?s2\<lparr>ID_current := Suc (ID_current ?s2),
                   DOM_HASH_MAP := (DOM_HASH_MAP ?s2)(decimal_nat (ID_current ?s2) \<mapsto> ?rec)\<rparr>"
    have "effect w [] [?rec] ?s2 ?s3"
      using c2 by (rule effect_write)
    from effect_trans [OF effect_trans [OF own kids] this]
    have all: "effect w (?own @ ?kids) (?krecs @ [?rec]) s ?s3"
      by simp
    have r: "snd (buildDomTree w (Element e childNodes shadowRoot content) parentIframe pos s) = ?s3"
      using acc by (simp add: case_prod_unfold Let_def)
    have i: "interactive_in w (Element e childNodes shadowRoot content) parentIframe = ?own @ ?kids"
      using acc
      by (simp add: interactive_in_def interactive_among_def
          split: frame_content.splits option.splits)
    have k: "records w (Element e childNodes shadowRoot content) parentIframe pos ?h =
               ?krecs @ [record_of w e pos ?h]"
      using acc by simp
    show ?thesis
      unfolding r i k using all nd by simp
  qed
next
  case (3 w elements_only parentIframe anc shadow prev s)
  then show ?case
    by (simp add: interactive_among_def effect_refl)
next
  case (4 w elements_only child rest parentIframe anc shadow prev s)
  let ?pos = "\<lparr>ancestors = anc, below_shadow_root = shadow, preceding = prev\<rparr>"
  let ?s1 = "if elements_only \<and> \<not> is_element child then s
             else snd (buildDomTree w child parentIframe ?pos s)"
  have one: "effect w (interactive_in w child parentIframe)
               (records w child parentIframe ?pos (highlightIndex s)) s ?s1"
  proof (cases "elements_only \<and> \<not> is_element child")
    case True
    then have "child = Other" by (cases child) simp_all
    then show ?thesis
      using True "4.prems" by (simp add: interactive_in_def effect_refl)
  next
    case False
    from "4.IH"(1) [OF False "4.prems"] show ?thesis
      using False by auto
  qed
  have c1: "coherent ?s1"
    using one by (rule effect_coherent)
  have h1: "highlightIndex ?s1 = highlightIndex s + length (interactive_in w child parentIframe)"
    using one by (rule effect_index)
  from "4.IH"(2) [OF c1]
  have more: "effect w (interactive_among w rest parentIframe)
                (records_children w rest parentIframe anc shadow (prev @ node_names child)
                   (highlightIndex s + length (interactive_in w child parentIframe)))
                ?s1
                (buildChildren w elements_only rest parentIframe anc shadow
                   (prev @ node_names child) ?s1)"
    unfolding h1 .
  from effect_trans [OF one more] show ?case
    by (simp add: interactive_among_def interactive_in_def)
qed

lemma scan_effect:
  "effect (window_of pg) (scan_interactive pg options) (scan_records pg options)
     (s\<lparr>highlightIndex := 0, ID_current := 0, boundingRects := Map.empty,
        computedStyles := Map.empty, container := None\<rparr>)
     (snd (findAndHighlightInteractiveElements pg options s))"
proof -
  let ?config = "merge_scan_config scan_defaults options"
  let ?s1 = "removeAllHighlights_scan (clearCache (s\<lparr>highlightIndex := 0, ID_current := 0\<rparr>))"
  let ?s2 = "?s1\<lparr>console := console ?s1 @ snd (start_node pg ?config)\<rparr>"
  let ?r = "s\<lparr>highlightIndex := 0, ID_current := 0, boundingRects := Map.empty,
        computedStyles := Map.empty, container := None\<rparr>"
  have s1: "?s1 = ?r"
    by (cases "container s") (simp_all add: removeAllHighlights_scan_def clearCache_def)
  have c: "coherent ?s2"
    by (simp add: s1 coherent_def)
  have e0: "effect (window_of pg) [] [] ?r ?s2"
    by (simp add: s1 effect_def draw_from_def coherent_def)
  show ?thesis
  proof (cases "fst (start_node pg ?config)")
    case None
    then show ?thesis
      using e0 by (simp add: findAndHighlightInteractiveElements_def Let_def
          scan_interactive_def scan_records_def)
  next
    case (Some found)
    obtain n pos where f: "found = (n, pos)" by (cases found)
    have h: "highlightIndex ?s2 = 0" by (simp add: s1)
    from walk_effect(1) [OF c, of "window_of pg" n None pos]
    have "effect (window_of pg) (interactive_in (window_of pg) n None)
            (records (window_of pg) n None pos 0) ?s2
            (snd (buildDomTree (window_of pg) n None pos ?s2))"
      unfolding h .
    from effect_trans [OF e0 this] show ?thesis
      using Some f by (simp add: findAndHighlightInteractiveElements_def Let_def
          scan_interactive_def scan_records_def)
  qed
qed

lemma scan_count:
  "fst (findAndHighlightInteractiveElements pg options s) =
     highlightIndex (snd (findAndHighlightInteractiveElements pg options s))"
  by (simp add: findAndHighlightInteractiveElements_def Let_def)

lemma scan_result:
  "fst (findAndHighlightInteractiveElements pg options s) = length (scan_interactive pg options)"
  "container (snd (findAndHighlightInteractiveElements pg options s)) =
     draw_from (window_of pg) 0 (scan_interactive pg options) None"
  "ID_current (snd (findAndHighlightInteractiveElements pg options s)) =
     length (scan_records pg options)"
  "DOM_HASH_MAP (snd (findAndHighlightInteractiveElements pg options s)) =
     store 0 (scan_records pg options) (DOM_HASH_MAP s)"
  using scan_effect [of pg options s] by (simp_all add: scan_count effect_def)

lemma store_override: "store i rs m = m ++ store i rs Map.empty"
proof (induction rs arbitrary: i m)
  case Nil
  then show ?case by simp
next
  case (Cons r rs)
  let ?one = "[decimal_nat i \<mapsto> r]"
  have one: "m(decimal_nat i \<mapsto> r) = m ++ ?one" by simp
  have "store i (r # rs) m = store (Suc i) rs (m ++ ?one)"
    by simp
  also have "\<dots> = (m ++ ?one) ++ store (Suc i) rs Map.empty"
    by (rule Cons.IH)
  also have "\<dots> = m ++ (?one ++ store (Suc i) rs Map.empty)"
    by (rule map_add_assoc [symmetric])
  also have "?one ++ store (Suc i) rs Map.empty = store (Suc i) rs ?one"
    by (rule Cons.IH [symmetric])
  also have "store (Suc i) rs ?one = store i (r # rs) Map.empty"
    by simp
  finally show ?case .
qed

lemma map_add_twice: "(m ++ n) ++ n = m ++ (n :: 'a \<rightharpoonup> 'b)"
  by (rule ext) (simp add: map_add_def split: option.split)

lemma store_twice: "store i rs (store i rs m) = store i rs m"
proof -
  have "store i rs (store i rs m) = store i rs m ++ store i rs Map.empty"
    by (rule store_override)
  also have "\<dots> = (m ++ store i rs Map.empty) ++ store i rs Map.empty"
    using store_override [of i rs m] by simp
  also have "\<dots> = m ++ store i rs Map.empty"
    by (rule map_add_twice)
  also have "\<dots> = store i rs m"
    by (rule store_override [symmetric])
  finally show ?thesis .
qed

lemma draw_from_no_body:
  "\<not> has_body w \<Longrightarrow> draw_from w h xs None = None"
proof -
  assume nb: "\<not> has_body w"
  have "foldl (place w) None ys = None" for ys
    by (induction ys) (simp_all add: place_def nb)
  then show ?thesis by (simp add: draw_from_def)
qed

lemma foldl_place_Some:
  "foldl (place w) (Some bs) ys =
     Some (bs @ map (\<lambda>x. draw_box (fst (fst x)) (snd x) (snd (fst x))) ys)"
  by (induction ys arbitrary: bs) (simp_all add: place_def)

lemma draw_from_body:
  assumes "has_body w" "xs \<noteq> []"
  shows "draw_from w h xs None =
           Some (map (\<lambda>x. draw_box (fst (fst x)) (snd x) (snd (fst x))) (zip xs [h..<h + length xs]))"
proof -
  obtain x xs' where xs: "xs = x # xs'" using assms(2) by (cases xs) auto
  have "[h..<h + length xs] = h # [Suc h..<h + length xs]"
    by (simp add: xs upt_rec)
  then show ?thesis
    using assms(1) by (simp add: draw_from_def xs place_def foldl_place_Some)
qed

lemma lower_tags:
  "toLowerCase ''BODY'' = ''body''" "toLowerCase ''DIV'' = ''div''"
  "toLowerCase ''BUTTON'' = ''button''" "toLowerCase ''A'' = ''a''"
  by (simp_all add: toLowerCase_def lower_char_def)

lemma plain_fields:
  "tagName (plain tag) = tag" "id_attr (plain tag) = []"
  by (simp_all add: plain_def)

lemma plain_accepted:
  "isElementAccepted (plain ''BODY'')" "isElementAccepted (plain ''DIV'')"
  "isElementAccepted (plain ''BUTTON'')" "isElementAccepted (plain ''A'')"
  by (simp_all add: isElementAccepted_def plain_fields lower_tags alwaysAccept_def
      leafElementDenyList_def)

lemma plain_visible: "visible (plain tag)"
  by (simp add: visible_def plain_def)

lemma plain_topmost: "topmost w (plain tag)"
  by (simp add: topmost_def plain_def)

lemma plain_interactive:
  "\<not> isInteractiveElement (plain ''BODY'')" "\<not> isInteractiveElement (plain ''DIV'')"
  "isInteractiveElement (plain ''BUTTON'')" "isInteractiveElement (plain ''A'')"
  by (simp_all add: isInteractiveElement_def plain_fields lower_tags interactiveElements_def
      getAttribute_def hasAttribute_def plain_def)

lemma plain_classified:
  "\<not> classified_interactive w (plain ''BODY'')" "\<not> classified_interactive w (plain ''DIV'')"
  "classified_interactive w (plain ''BUTTON'')" "classified_interactive w (plain ''A'')"
  by (simp_all add: classified_interactive_def plain_visible plain_topmost plain_interactive)

lemmas example_eval =
  plain_fields lower_tags plain_accepted plain_classified plain_visible plain_topmost
  plain_interactive HIGHLIGHT_CONTAINER_ID_def

lemma interactive_in_div:
  "interactive_in w example_div f = [(plain ''BUTTON'', f)]"
  by (simp add: interactive_in_def example_div_def leaf_def example_eval)

lemma interactive_in_body:
  "interactive_in w example_body f = [(plain ''BUTTON'', f), (plain ''A'', f)]"
  by (simp add: interactive_in_def example_body_def example_div_def leaf_def example_eval)

lemma start_examples:
  "fst (start_node example_page (merge_scan_config scan_defaults no_scan_options)) =
     Some (example_body, body_position)"
  "fst (start_node example_page (merge_scan_config scan_defaults (from_selector ''div''))) =
     Some (example_div,
       \<lparr>ancestors = [''html'', ''body''], below_shadow_root = False, preceding = []\<rparr>)"
  "fst (start_node bodiless_page (merge_scan_config scan_defaults (from_selector ''div''))) =
     Some (example_div,
       \<lparr>ancestors = [''html''], below_shadow_root = False, preceding = [''HEAD'']\<rparr>)"
  by (simp_all add: start_node_def merge_scan_config_def scan_defaults_def no_scan_options_def
      from_selector_def example_page_def bodiless_page_def body_start_def)

lemma scan_interactive_examples:
  "scan_interactive example_page no_scan_options = [(plain ''BUTTON'', None), (plain ''A'', None)]"
  "scan_interactive example_page (from_selector ''div'') = [(plain ''BUTTON'', None)]"
  "scan_interactive bodiless_page (from_selector ''div'') = [(plain ''BUTTON'', None)]"
  by (simp_all add: scan_interactive_def start_examples interactive_in_div interactive_in_body)

lemma interactive_in_Other: "interactive_in w Other f = []"
  by (simp add: interactive_in_def)

lemma node_names_div: "node_names example_div = [''DIV'']"
  by (simp add: example_div_def plain_fields)

lemma records_div:
  "records w example_div f pos h =
     [record_of w (plain ''BUTTON'')
        \<lparr>ancestors = segments pos (plain ''DIV''), below_shadow_root = False, preceding = []\<rparr> h,
      record_of w (plain ''DIV'') pos h]"
  by (simp add: example_div_def leaf_def example_eval)

lemma records_body:
  "records w example_body f pos h =
     [record_of w (plain ''BUTTON'')
        \<lparr>ancestors = segments
            \<lparr>ancestors = segments pos (plain ''BODY''), below_shadow_root = False, preceding = []\<rparr>
            (plain ''DIV''),
         below_shadow_root = False, preceding = []\<rparr> h,
      record_of w (plain ''DIV'')
        \<lparr>ancestors = segments pos (plain ''BODY''), below_shadow_root = False, preceding = []\<rparr> h,
      record_of w (plain ''A'')
        \<lparr>ancestors = segments pos (plain ''BODY''), below_shadow_root = False,
         preceding = [''DIV'']\<rparr> (Suc h),
      record_of w (plain ''BODY'') pos h]"
  by (simp add: example_body_def records_div interactive_in_div interactive_in_Other
      node_names_div leaf_def example_eval)

lemma scan_records_examples:
  "scan_records example_page no_scan_options = records (window_of example_page) example_body None body_position 0"
  "scan_records example_page (from_selector ''div'') =
     records (window_of example_page) example_div None
       \<lparr>ancestors = [''html'', ''body''], below_shadow_root = False, preceding = []\<rparr> 0"
  by (simp_all add: scan_records_def start_examples)

lemma small_ids:
  "decimal_nat 0 = ''0''" "decimal_nat 1 = ''1''" "decimal_nat 2 = ''2''" "decimal_nat 3 = ''3''"
  "decimal_nat (Suc 0) = ''1''" "decimal_nat (Suc (Suc 0)) = ''2''"
  "decimal_nat (Suc (Suc (Suc 0))) = ''3''"
  by (simp_all add: decimal_nat.simps digit_char_def)

lemma example_page_body: "document_body example_page \<noteq> None"
  by (simp add: example_page_def)

lemma overlays_drawn:
  "length (overlays (snd (findAndHighlightInteractiveElements pg options s))) =
     (if document_body pg = None then 0 else length (scan_interactive pg options))"
proof (cases "document_body pg")
  case None
  then have "\<not> has_body (window_of pg)" by (simp add: window_of_def)
  then show ?thesis
    using None by (simp add: overlays_def scan_result(2) draw_from_no_body)
next
  case (Some body)
  then have b: "has_body (window_of pg)" by (simp add: window_of_def)
  show ?thesis
  proof (cases "scan_interactive pg options = []")
    case True
    then show ?thesis by (simp add: overlays_def scan_result(2) draw_from_def)
  next
    case ne: False
    have "container (snd (findAndHighlightInteractiveElements pg options s)) =
            Some (map (\<lambda>x. draw_box (fst (fst x)) (snd x) (snd (fst x)))
                    (zip (scan_interactive pg options) [0..<0 + length (scan_interactive pg options)]))"
      unfolding scan_result(2) using b ne by (rule draw_from_body)
    then show ?thesis
      using Some by (simp add: overlays_def)
  qed
qed

text \<open>
  Claim C1, as amended. An exception raised while an overlay is drawn is caught inside
  \<^verbatim>\<open>highlightElement\<close> and the scan goes on, but the counter was advanced before the call
  and the index \<^verbatim>\<open>highlightElement\<close> returns is dropped: the count returned by
  \<^verbatim>\<open>findAndHighlightInteractiveElements\<close> is the number of elements classified
  interactive (visible, topmost and interactive), whether or not their overlays were
  drawn. The overlays drawn are as many when the document has a body, and none when it
  has not and every drawing raises.
\<close>

theorem count_is_classified_interactive:
  "fst (findAndHighlightInteractiveElements pg options s) = length (scan_interactive pg options) \<and>
   length (overlays (snd (findAndHighlightInteractiveElements pg options s))) =
     (if document_body pg = None then 0 else length (scan_interactive pg options))"
  by (simp add: scan_result(1) overlays_drawn)

theorem count_is_classified_interactive_witness:
  "fst (findAndHighlightInteractiveElements example_page no_scan_options initial_scanner) = 2 \<and>
   length (overlays (snd (findAndHighlightInteractiveElements example_page no_scan_options
      initial_scanner))) = 2"
  using count_is_classified_interactive [of example_page no_scan_options initial_scanner]
  by (simp add: scan_interactive_examples example_page_body)

lemma bodiless_console:
  "console (snd (findAndHighlightInteractiveElements bodiless_page (from_selector ''div'')
      initial_scanner)) =
     [ConsoleLog ''Starting highlight from parent selector: div'',
      ConsoleError ''Error highlighting element:'']"
  by (simp add: findAndHighlightInteractiveElements_def Let_def start_examples
      start_node_def merge_scan_config_def scan_defaults_def from_selector_def no_scan_options_def
      bodiless_page_def window_of_def
      removeAllHighlights_scan_def clearCache_def initial_scanner_def example_div_def leaf_def
      check_element_def isElementVisible_def isTopElement_def getCachedComputedStyle_def
      getCachedBoundingRect_def highlightElement_def example_eval plain_def
      rect_right_def rect_bottom_def unit_rect_def
      isInteractiveElement_def interactiveElements_def getAttribute_def hasAttribute_def
      isElementAccepted_def alwaysAccept_def leafElementDenyList_def)

text \<open>
  Claim C1 as stated fails: in a document without a body, a scan started from a \<^verbatim>\<open>div\<close>
  that holds one button finds the button interactive, the drawing of its overlay raises
  and is caught and logged, no overlay is drawn, and the count returned is \<open>1\<close>, not \<open>0\<close>.
\<close>

theorem failed_drawing_still_counted_counterexample:
  "fst (findAndHighlightInteractiveElements bodiless_page (from_selector ''div'') initial_scanner) = 1 \<and>
   overlays (snd (findAndHighlightInteractiveElements bodiless_page (from_selector ''div'')
      initial_scanner)) = [] \<and>
   console (snd (findAndHighlightInteractiveElements bodiless_page (from_selector ''div'')
      initial_scanner)) =
     [ConsoleLog ''Starting highlight from parent selector: div'',
      ConsoleError ''Error highlighting element:'']"
proof -
  have "\<not> has_body (window_of bodiless_page)"
    by (simp add: window_of_def bodiless_page_def)
  then show ?thesis
    by (simp add: scan_result scan_interactive_examples overlays_def draw_from_no_body
        bodiless_console)
qed

lemma boxes_of_zip:
  "map ((\<lambda>b. ((box_target b, box_frame b), box_label b)) \<circ>
        (\<lambda>x. draw_box (fst (fst x)) (snd x) (snd (fst x)))) ys = ys"
  by (induction ys) (simp_all add: draw_box_def Let_def)

text \<open>
  The indices stored in the records of a walk are the numbers from the counter's value
  upwards, one for each interactive element.
\<close>

lemma interactive_in_Element:
  "interactive_in w (Element e childNodes shadowRoot content) f =
     (if id_attr e = HIGHLIGHT_CONTAINER_ID \<or> \<not> isElementAccepted e then []
      else (if classified_interactive w e then [(e, f)] else []) @
        (if toLowerCase (tagName e) = ''iframe''
         then (case content of
                 Inaccessible \<Rightarrow> []
               | NoDocument \<Rightarrow> []
               | Document None \<Rightarrow> []
               | Document (Some body) \<Rightarrow> interactive_in w body (Some e))
         else (case shadowRoot of
                 Some nodes \<Rightarrow> interactive_among w nodes f
               | None \<Rightarrow> interactive_among w childNodes f)))"
  by (simp add: interactive_in_def interactive_among_def
      split: frame_content.splits option.splits)

lemma interactive_among_Cons:
  "interactive_among w (child # rest) f = interactive_in w child f @ interactive_among w rest f"
  by (simp add: interactive_in_def interactive_among_def)

lemma interactive_among_Nil: "interactive_among w [] f = []"
  by (simp add: interactive_among_def)

lemma map_filter_append:
  "List.map_filter g (xs @ ys) = List.map_filter g xs @ List.map_filter g ys"
  by (simp add: List.map_filter_def)

lemma record_indices:
  "set (List.map_filter nd_highlightIndex (records w n f pos h)) =
     {h..<h + length (interactive_in w n f)}"
  "set (List.map_filter nd_highlightIndex (records_children w ns f anc sh prev h)) =
     {h..<h + length (interactive_among w ns f)}"
proof (induction w n f pos h and w ns f anc sh prev h rule: records_records_children.induct)
  case (1 w parentIframe pos h)
  then show ?case by (simp add: interactive_in_def List.map_filter_def)
next
  case (2 w e childNodes shadowRoot content parentIframe pos h)
  show ?case
  proof (cases "id_attr e = HIGHLIGHT_CONTAINER_ID \<or> \<not> isElementAccepted e")
    case True
    then show ?thesis by (auto simp: interactive_in_Element List.map_filter_def)
  next
    case False
    then have acc: "\<not> (id_attr e = HIGHLIGHT_CONTAINER_ID \<or> \<not> isElementAccepted e)" .
    have own: "set (List.map_filter nd_highlightIndex [record_of w e pos h]) =
                 (if classified_interactive w e then {h} else {})"
      by (simp add: List.map_filter_def record_of_def)
    show ?thesis
    proof (cases "toLowerCase (tagName e) = ''iframe''")
      case iframe: True
      show ?thesis
      proof (cases content)
        case Inaccessible
        then show ?thesis using acc iframe own
          by (auto simp: interactive_in_Element map_filter_append)
      next
        case NoDocument
        then show ?thesis using acc iframe own
          by (auto simp: interactive_in_Element map_filter_append)
      next
        case (Document b)
        show ?thesis
        proof (cases b)
          case None
          then show ?thesis using acc iframe own Document
            by (auto simp: interactive_in_Element map_filter_append)
        next
          case (Some body)
          from "2.IH"(1) [OF acc iframe Document Some]
          show ?thesis using acc iframe own Document Some
            by (auto simp: interactive_in_Element map_filter_append)
        qed
      qed
    next
      case regular: False
      show ?thesis
      proof (cases shadowRoot)
        case None
        from "2.IH"(2) [OF acc regular None]
        show ?thesis using acc regular own None
          by (auto simp: interactive_in_Element map_filter_append)
      next
        case (Some nodes)
        from "2.IH"(3) [OF acc regular Some]
        show ?thesis using acc regular own Some
          by (auto simp: interactive_in_Element map_filter_append)
      qed
    qed
  qed
next
  case (3 w parentIframe anc shadow prev h)
  then show ?case by (simp add: interactive_among_Nil List.map_filter_def)
next
  case (4 w child rest parentIframe anc shadow prev h)
  then show ?case
    by (auto simp: interactive_among_Cons map_filter_append)
qed


lemma record_indices_length:
  "length (List.map_filter nd_highlightIndex (records w n f pos h)) =
     length (interactive_in w n f)"
  "length (List.map_filter nd_highlightIndex (records_children w ns f anc sh prev h)) =
     length (interactive_among w ns f)"
proof (induction w n f pos h and w ns f anc sh prev h rule: records_records_children.induct)
  case (1 w parentIframe pos h)
  then show ?case by (simp add: interactive_in_def List.map_filter_def)
next
  case (2 w e childNodes shadowRoot content parentIframe pos h)
  show ?case
  proof (cases "id_attr e = HIGHLIGHT_CONTAINER_ID \<or> \<not> isElementAccepted e")
    case True
    then show ?thesis by (auto simp: interactive_in_Element List.map_filter_def)
  next
    case False
    then have acc: "\<not> (id_attr e = HIGHLIGHT_CONTAINER_ID \<or> \<not> isElementAccepted e)" .
    have own: "length (List.map_filter nd_highlightIndex [record_of w e pos h]) =
                 (if classified_interactive w e then 1 else 0)"
      by (simp add: List.map_filter_def record_of_def)
    show ?thesis
    proof (cases "toLowerCase (tagName e) = ''iframe''")
      case iframe: True
      show ?thesis
      proof (cases content)
        case Inaccessible
        then show ?thesis using acc iframe own
          by (auto simp: interactive_in_Element map_filter_append)
      next
        case NoDocument
        then show ?thesis using acc iframe own
          by (auto simp: interactive_in_Element map_filter_append)
      next
        case (Document b)
        show ?thesis
        proof (cases b)
          case None
          then show ?thesis using acc iframe own Document
            by (auto simp: interactive_in_Element map_filter_append)
        next
          case (Some body)
          from "2.IH"(1) [OF acc iframe Document Some]
          show ?thesis using acc iframe own Document Some
            by (auto simp: interactive_in_Element map_filter_append)
        qed
      qed
    next
      case regular: False
      show ?thesis
      proof (cases shadowRoot)
        case None
        from "2.IH"(2) [OF acc regular None]
        show ?thesis using acc regular own None
          by (auto simp: interactive_in_Element map_filter_append)
      next
        case (Some nodes)
        from "2.IH"(3) [OF acc regular Some]
        show ?thesis using acc regular own Some
          by (auto simp: interactive_in_Element map_filter_append)
      qed
    qed
  qed
next
  case (3 w parentIframe anc shadow prev h)
  then show ?case by (simp add: interactive_among_Nil List.map_filter_def)
next
  case (4 w child rest parentIframe anc shadow prev h)
  then show ?case
    by (auto simp: interactive_among_Cons map_filter_append)
qed

text \<open>
  Claim C7. On an unchanged page, \<^verbatim>\<open>removeAllHighlights\<close> followed by a second
  \<^verbatim>\<open>findAndHighlightInteractiveElements\<close> with the same options returns the same count,
  draws the same overlays with the same labels and leaves the same records, each with
  the same \<^verbatim>\<open>highlightIndex\<close>. Within one scan the count is the number of interactive
  elements, the indices stored in the records are exactly \<open>0, \<dots>, count - 1\<close>, each once,
  and the overlays are those of the interactive elements taken in pre-order and
  labelled \<open>0, 1, 2, \<dots>\<close> in that order: when the document has a body the \<open>k\<close>-th
  overlay belongs to the \<open>k\<close>-th interactive element of the pre-order and carries the
  label \<open>k\<close>.
\<close>

theorem rescan_assigns_same_indices:
  "let first = findAndHighlightInteractiveElements pg options s;
       again = findAndHighlightInteractiveElements pg options (removeAllHighlights_scan (snd first));
       found = scan_interactive pg options;
       indices = List.map_filter nd_highlightIndex (scan_records pg options)
   in fst again = fst first \<and>
      container (snd again) = container (snd first) \<and>
      DOM_HASH_MAP (snd again) = DOM_HASH_MAP (snd first) \<and>
      fst first = length found \<and>
      container (snd first) = draw_from (window_of pg) 0 found None \<and>
      DOM_HASH_MAP (snd first) = store 0 (scan_records pg options) (DOM_HASH_MAP s) \<and>
      set indices = {0..<length found} \<and> length indices = length found \<and>
      (document_body pg \<noteq> None \<longrightarrow>
         map (\<lambda>b. ((box_target b, box_frame b), box_label b)) (overlays (snd first)) =
           zip found [0..<length found])"
proof -
  let ?first = "findAndHighlightInteractiveElements pg options s"
  let ?found = "scan_interactive pg options"
  let ?indices = "List.map_filter nd_highlightIndex (scan_records pg options)"
  have m: "DOM_HASH_MAP (removeAllHighlights_scan (snd ?first)) = DOM_HASH_MAP (snd ?first)"
    by (simp add: removeAllHighlights_scan_def split: option.splits)
  have labels: "map (\<lambda>b. ((box_target b, box_frame b), box_label b)) (overlays (snd ?first)) =
           zip ?found [0..<length ?found]" if body: "document_body pg \<noteq> None"
  proof (cases "?found = []")
    case True
    then show ?thesis by (simp add: overlays_def scan_result(2) draw_from_def)
  next
    case False
    from body have "has_body (window_of pg)" by (simp add: window_of_def)
    from draw_from_body [OF this False, of 0] show ?thesis
      by (simp add: overlays_def scan_result(2) boxes_of_zip)
  qed
  have indices: "set ?indices = {0..<length ?found} \<and> length ?indices = length ?found"
  proof (cases "fst (start_node pg (merge_scan_config scan_defaults options))")
    case None
    then show ?thesis
      by (simp add: scan_records_def scan_interactive_def List.map_filter_def)
  next
    case (Some found)
    obtain n pos where "found = (n, pos)" by (cases found)
    with Some show ?thesis
      using record_indices(1) [of "window_of pg" n None pos 0]
        record_indices_length(1) [of "window_of pg" n None pos 0]
      by (simp add: scan_records_def scan_interactive_def)
  qed
  show ?thesis
    unfolding Let_def using labels indices
    by (simp add: scan_result m store_twice)
qed

theorem rescan_assigns_same_indices_witness:
  "document_body example_page \<noteq> None \<and>
   map (\<lambda>b. ((box_target b, box_frame b), box_label b))
     (overlays (snd (findAndHighlightInteractiveElements example_page no_scan_options initial_scanner))) =
     [((plain ''BUTTON'', None), 0), ((plain ''A'', None), 1)] \<and>
   fst (findAndHighlightInteractiveElements example_page no_scan_options
     (removeAllHighlights_scan
        (snd (findAndHighlightInteractiveElements example_page no_scan_options initial_scanner)))) = 2"
proof -
  have b: "document_body example_page \<noteq> None"
    by (rule example_page_body)
  from rescan_assigns_same_indices [of example_page no_scan_options initial_scanner] b
  show ?thesis
    by (simp add: Let_def scan_interactive_examples)
qed

lemma merged_parentSelector:
  "parentSelector (merge_scan_config scan_defaults options) = opt_parentSelector options"
  by (simp add: merge_scan_config_def scan_defaults_def split: option.splits)

lemma start_node_selector:
  "parentSelector c1 = parentSelector c2 \<Longrightarrow> start_node pg c1 = start_node pg c2"
  by (simp add: start_node_def)

text \<open>
  Claim C10. Two calls of \<^verbatim>\<open>findAndHighlightInteractiveElements\<close> on the same page and
  state, whose options agree on \<^verbatim>\<open>parentSelector\<close> and differ at most in
  \<^verbatim>\<open>doHighlightElements\<close>, \<^verbatim>\<open>focusHighlightIndex\<close> and \<^verbatim>\<open>viewportExpansion\<close>, return the
  same count and leave the same state: the same records, the same overlays, the same
  console output.
\<close>

theorem unused_options_have_no_effect:
  assumes "opt_parentSelector o1 = opt_parentSelector o2"
  shows "findAndHighlightInteractiveElements pg o1 s = findAndHighlightInteractiveElements pg o2 s"
proof -
  have start: "start_node pg (merge_scan_config scan_defaults o1) =
        start_node pg (merge_scan_config scan_defaults o2)"
    using assms by (intro start_node_selector) (simp add: merged_parentSelector)
  show ?thesis
    unfolding findAndHighlightInteractiveElements_def Let_def start by (rule refl)
qed

theorem unused_options_have_no_effect_witness:
  "opt_parentSelector all_switched = opt_parentSelector no_scan_options \<and>
   findAndHighlightInteractiveElements example_page all_switched initial_scanner =
     findAndHighlightInteractiveElements example_page no_scan_options initial_scanner \<and>
   length (overlays (snd (findAndHighlightInteractiveElements example_page all_switched
     initial_scanner))) = 2"
proof -
  have p: "opt_parentSelector all_switched = opt_parentSelector no_scan_options"
    by (simp add: all_switched_def no_scan_options_def)
  from unused_options_have_no_effect [OF p, of example_page initial_scanner] p
  show ?thesis
    by (simp add: overlays_drawn scan_interactive_examples example_page_body)
qed

lemma example_segments:
  "segments body_position (plain ''BODY'') = [''html'', ''body'']"
  "segments \<lparr>ancestors = [''html'', ''body''], below_shadow_root = False, preceding = []\<rparr>
     (plain ''DIV'') = [''html'', ''body'', ''div'']"
  "segments \<lparr>ancestors = [''html'', ''body'', ''div''], below_shadow_root = False, preceding = []\<rparr>
     (plain ''BUTTON'') = [''html'', ''body'', ''div'', ''button'']"
  by (simp_all add: segments_def body_position_def example_eval)

text \<open>
  Claim C3 does not hold of the code in its part on children: \<^verbatim>\<open>buildDomTree\<close> creates
  every record with an empty \<^verbatim>\<open>children\<close> array and drops the ids its recursive calls
  return. After a scan of the example page the button has the record \<^verbatim>\<open>0\<close>, and the
  record \<^verbatim>\<open>1\<close> of the \<^verbatim>\<open>div\<close> that holds the button has its lowercased tag name and
  its XPath, and no children.
\<close>

theorem children_left_empty:
  "let m = DOM_HASH_MAP (snd (findAndHighlightInteractiveElements example_page no_scan_options
             initial_scanner))
   in map_option (\<lambda>r. (nd_tagName r, nd_xpath r)) (m ''0'') =
        Some (''button'', ''html/body/div/button'') \<and>
      map_option (\<lambda>r. (nd_tagName r, nd_xpath r, nd_children r)) (m ''1'') =
        Some (''div'', ''html/body/div'', [])"
  by (simp add: Let_def scan_result(4) scan_records_examples records_body small_ids
      record_of_def getXPathTree_def example_segments example_eval)

text \<open>
  Claim C2 does not hold of the code in its part on the mapping: the counters, the caches
  and the overlay are reset, \<^verbatim>\<open>DOM_HASH_MAP\<close> is not. After a scan of the whole example
  page (four records) a scan from the \<^verbatim>\<open>div\<close> writes the records \<^verbatim>\<open>0\<close> and \<^verbatim>\<open>1\<close>, and the
  records \<^verbatim>\<open>2\<close> and \<^verbatim>\<open>3\<close> of the first scan, those of the link and the body, are still
  in the mapping.
\<close>

theorem earlier_records_survive:
  "let s1 = snd (findAndHighlightInteractiveElements example_page no_scan_options initial_scanner);
       s2 = snd (findAndHighlightInteractiveElements example_page (from_selector ''div'') s1)
   in ID_current s2 = 2 \<and>
      map_option nd_tagName (DOM_HASH_MAP s2 ''2'') = Some ''a'' \<and>
      map_option nd_tagName (DOM_HASH_MAP s2 ''3'') = Some ''body''"
  by (simp add: Let_def scan_result scan_records_examples records_body records_div small_ids
      record_of_def example_eval)

text \<open>No walk writes a record with children.\<close>

lemma records_no_children:
  "list_all (\<lambda>r. nd_children r = []) (records w n f pos h)"
  "list_all (\<lambda>r. nd_children r = []) (records_children w ns f anc sh prev h)"
  by (induction w n f pos h and w ns f anc sh prev h rule: records_records_children.induct)
     (auto simp: record_of_def split: frame_content.splits option.splits)

end
